theory Spec2Isabelle
  imports Main "HOL-Library.Word" "HOL-Library.Sublist"
begin

section \<open>JavaScript values\<close>

text \<open>
  The relay in \<^verbatim>\<open>src/index.ts\<close> handles the parsed request body and the upstream
  reply as values of type \<^verbatim>\<open>any\<close>. They are modelled by the values \<^verbatim>\<open>JSON.parse\<close>
  can deliver, together with \<^verbatim>\<open>undefined\<close> (the result of reading a property that
  is not there). Strings are the UTF-8 byte sequences of the JavaScript strings, numbers
  are the integers that JavaScript has exactly and writes in plain decimal (those of
  magnitude below \<open>2\<^sup>5\<^sup>3\<close>), and an object is the list of its own properties (the
  keys of a parsed object are distinct, so the first entry of a key is its only one).
\<close>

type_synonym byte = "8 word"

datatype jsval =
    JUndefined
  | JNull
  | JBool bool
  | JNum int
  | JStr string
  | JArr "jsval list"
  | JObj "(string \<times> jsval) list"

text \<open>
  What the program can throw: \<^verbatim>\<open>new Error(message)\<close>, the engine's \<^verbatim>\<open>TypeError\<close>
  (reading a property of \<^verbatim>\<open>undefined\<close> or \<^verbatim>\<open>null\<close>, calling what is not a function, an
  argument \<^verbatim>\<open>Buffer.from\<close> refuses), and the two ways an axios request is rejected.
\<close>

datatype js_error =
    Error string
  | TypeError
  | AxiosNetworkError string
  | AxiosStatusError nat jsval

text \<open>Truthiness, as \<^verbatim>\<open>if (v)\<close>, \<^verbatim>\<open>!v\<close> and \<^verbatim>\<open>v || d\<close> test it.\<close>

fun truthy :: "jsval \<Rightarrow> bool" where
  "truthy JUndefined = False"
| "truthy JNull = False"
| "truthy (JBool b) = b"
| "truthy (JNum n) = (n \<noteq> 0)"
| "truthy (JStr s) = (s \<noteq> [])"
| "truthy (JArr xs) = True"
| "truthy (JObj kvs) = True"

text \<open>The operator \<^verbatim>\<open>a || b\<close>.\<close>

definition js_or :: "jsval \<Rightarrow> jsval \<Rightarrow> jsval" where
  "js_or a b = (if truthy a then a else b)"

text \<open>
  Reading a property \<^verbatim>\<open>v.k\<close>. The names this program reads (\<^verbatim>\<open>model\<close>, \<^verbatim>\<open>prompt\<close>,
  \<^verbatim>\<open>mimeType\<close>, \<^verbatim>\<open>inlineData\<close>, \<^verbatim>\<open>candidates\<close>, \<^verbatim>\<open>content\<close>, \<^verbatim>\<open>parts\<close>, \<^verbatim>\<open>text\<close>,
  \<^verbatim>\<open>finishReason\<close>, \<^verbatim>\<open>usageMetadata\<close>, the three token counts, \<^verbatim>\<open>models\<close>, \<^verbatim>\<open>name\<close>)
  are properties of no primitive, array or prototype, so only an object's own entries
  can answer; on \<^verbatim>\<open>undefined\<close> and \<^verbatim>\<open>null\<close> the read throws.
\<close>

fun get_prop :: "jsval \<Rightarrow> string \<Rightarrow> js_error + jsval" where
  "get_prop JUndefined k = Inl TypeError"
| "get_prop JNull k = Inl TypeError"
| "get_prop (JObj kvs) k = (case map_of kvs k of None \<Rightarrow> Inr JUndefined | Some v \<Rightarrow> Inr v)"
| "get_prop v k = Inr JUndefined"

subsection \<open>Conversion to string\<close>

fun digit_string :: "nat \<Rightarrow> string" where
  "digit_string n =
     (if n < 10 then [char_of (48 + n)]
      else digit_string (n div 10) @ [char_of (48 + n mod 10)])"

declare digit_string.simps [simp del]

definition int_string :: "int \<Rightarrow> string" where
  "int_string i = (if i < 0 then CHR ''-'' # digit_string (nat (- i)) else digit_string (nat i))"

fun intercalate :: "string \<Rightarrow> string list \<Rightarrow> string" where
  "intercalate sep [] = []"
| "intercalate sep [x] = x"
| "intercalate sep (x # y # ys) = x @ sep @ intercalate sep (y # ys)"

text \<open>
  \<^verbatim>\<open>ToString\<close>, which a template literal and \<^verbatim>\<open>Array.prototype.join\<close> apply. An
  object is written by the \<^verbatim>\<open>toString\<close> it finds: the one of \<^verbatim>\<open>Object.prototype\<close>,
  unless the object has an entry \<^verbatim>\<open>toString\<close> of its own; no parsed value is a
  function, so with such an entry the conversion finds nothing to call and throws a
  \<^verbatim>\<open>TypeError\<close>. An array is joined with commas. \<open>join_strings\<close> is the conversion
  \<^verbatim>\<open>join\<close> applies to the elements, in order: nothing is written for an element that is
  \<^verbatim>\<open>undefined\<close> or \<^verbatim>\<open>null\<close>, and the first element that throws ends it.
\<close>

fun to_string :: "jsval \<Rightarrow> js_error + string"
  and join_strings :: "jsval list \<Rightarrow> js_error + string list" where
  "to_string JUndefined = Inr ''undefined''"
| "to_string JNull = Inr ''null''"
| "to_string (JBool b) = Inr (if b then ''true'' else ''false'')"
| "to_string (JNum n) = Inr (int_string n)"
| "to_string (JStr s) = Inr s"
| "to_string (JArr xs) =
     (case join_strings xs of Inl e \<Rightarrow> Inl e | Inr ss \<Rightarrow> Inr (intercalate '','' ss))"
| "to_string (JObj kvs) =
     (case map_of kvs ''toString'' of
        None \<Rightarrow> Inr ''[object Object]''
      | Some v \<Rightarrow> Inl TypeError)"
| "join_strings [] = Inr []"
| "join_strings (x # xs) =
     (case (if x = JUndefined \<or> x = JNull then Inr [] else to_string x) of
        Inl e \<Rightarrow> Inl e
      | Inr s \<Rightarrow> (case join_strings xs of Inl e \<Rightarrow> Inl e | Inr ss \<Rightarrow> Inr (s # ss)))"

text \<open>\<^verbatim>\<open>xs.join(sep)\<close>.\<close>

definition js_join :: "string \<Rightarrow> jsval list \<Rightarrow> js_error + string" where
  "js_join sep xs =
     (case join_strings xs of Inl e \<Rightarrow> Inl e | Inr ss \<Rightarrow> Inr (intercalate sep ss))"

text \<open>\<^verbatim>\<open>xs.map(f)\<close> for a callback that may throw: the first exception ends the map.\<close>

fun try_map :: "('a \<Rightarrow> js_error + 'b) \<Rightarrow> 'a list \<Rightarrow> js_error + 'b list" where
  "try_map f [] = Inr []"
| "try_map f (x # xs) =
     (case f x of
        Inl e \<Rightarrow> Inl e
      | Inr y \<Rightarrow> (case try_map f xs of Inl e \<Rightarrow> Inl e | Inr ys \<Rightarrow> Inr (y # ys)))"

subsection \<open>Buffers and base64\<close>

definition is_digit :: "char \<Rightarrow> bool" where
  "is_digit c = (48 \<le> (of_char c :: nat) \<and> (of_char c :: nat) \<le> 57)"

fun decimal_value :: "nat \<Rightarrow> string \<Rightarrow> nat" where
  "decimal_value acc [] = acc"
| "decimal_value acc (c # cs) = decimal_value (10 * acc + ((of_char c :: nat) - 48)) cs"

text \<open>
  \<^verbatim>\<open>ToNumber\<close> followed by the conversion to an unsigned byte, which a typed array
  applies to each element stored into it: an integer wraps modulo 256, and what is not a
  number (\<^verbatim>\<open>NaN\<close>) becomes 0. An array or an object is first turned into a string, as
  \<^verbatim>\<open>ToString\<close> does it, with the same \<^verbatim>\<open>TypeError\<close>. Of the string notations of a
  number the model reads the plain decimal ones, with an optional minus sign; a string
  in another notation counts as not a number here.
\<close>

definition string_to_uint8 :: "string \<Rightarrow> byte" where
  "string_to_uint8 s =
     (case s of
        [] \<Rightarrow> 0
      | c # cs \<Rightarrow>
          if c = CHR ''-'' \<and> cs \<noteq> [] \<and> list_all is_digit cs
            then word_of_int (- int (decimal_value 0 cs))
          else if list_all is_digit s then word_of_int (int (decimal_value 0 s))
          else 0)"

fun to_uint8 :: "jsval \<Rightarrow> js_error + byte" where
  "to_uint8 (JNum n) = Inr (word_of_int n)"
| "to_uint8 (JBool b) = Inr (if b then 1 else 0)"
| "to_uint8 JNull = Inr 0"
| "to_uint8 JUndefined = Inr 0"
| "to_uint8 (JStr s) = Inr (string_to_uint8 s)"
| "to_uint8 v = (case to_string v of Inl e \<Rightarrow> Inl e | Inr s \<Rightarrow> Inr (string_to_uint8 s))"

text \<open>
  \<^verbatim>\<open>Buffer.from(value)\<close> of Node.js. A string gives its UTF-8 bytes and an array the
  bytes of its elements. An object is accepted when it is array-like (it has a
  \<^verbatim>\<open>length\<close>, taken here to be one the platform can allocate) or has the shape a
  serialised buffer has, \<^verbatim>\<open>{type: "Buffer", data: [...]}\<close>;
  its own \<^verbatim>\<open>valueOf\<close> entry, if any, is consulted first, and since no parsed value is a
  function, calling a truthy one throws. Numbers, booleans and every other object are
  refused with a \<^verbatim>\<open>TypeError\<close>, and an element that cannot be made a number throws
  one too.
\<close>

definition from_array_like :: "(string \<times> jsval) list \<Rightarrow> int \<Rightarrow> js_error + byte list" where
  "from_array_like kvs n =
     try_map (\<lambda>i. case map_of kvs (digit_string i) of None \<Rightarrow> Inr 0 | Some v \<Rightarrow> to_uint8 v)
       [0 ..< nat n]"

definition from_serialised :: "(string \<times> jsval) list \<Rightarrow> js_error + byte list" where
  "from_serialised kvs =
     (case map_of kvs ''type'' of
        Some (JStr t) \<Rightarrow>
          (case map_of kvs ''data'' of
             Some (JArr xs) \<Rightarrow> if t = ''Buffer'' then try_map to_uint8 xs else Inl TypeError
           | _ \<Rightarrow> Inl TypeError)
      | _ \<Rightarrow> Inl TypeError)"

definition from_object :: "(string \<times> jsval) list \<Rightarrow> js_error + byte list" where
  "from_object kvs =
     (case map_of kvs ''length'' of
        None \<Rightarrow> from_serialised kvs
      | Some l \<Rightarrow>
          if l = JUndefined then from_serialised kvs
          else (case l of JNum n \<Rightarrow> from_array_like kvs n | _ \<Rightarrow> Inr []))"

fun buffer_from :: "jsval \<Rightarrow> js_error + byte list" where
  "buffer_from (JStr s) = Inr (map of_char s)"
| "buffer_from (JArr xs) = try_map to_uint8 xs"
| "buffer_from (JObj kvs) =
     (case map_of kvs ''valueOf'' of
        None \<Rightarrow> from_object kvs
      | Some v \<Rightarrow>
          if truthy v then Inl TypeError
          else if v = JStr [] then Inr []
          else from_object kvs)"
| "buffer_from v = Inl TypeError"

definition b64_alphabet :: string where
  "b64_alphabet = ''ABCDEFGHIJKLMNOPQRSTUVWXYZabcdefghijklmnopqrstuvwxyz0123456789+/''"

definition b64_digit :: "nat \<Rightarrow> char" where
  "b64_digit n = b64_alphabet ! (n mod 64)"

text \<open>\<^verbatim>\<open>buffer.toString("base64")\<close>: the padded base64 alphabet of RFC 4648.\<close>

fun base64 :: "byte list \<Rightarrow> string" where
  "base64 (a # b # c # rest) =
     (let n = unat a * 65536 + unat b * 256 + unat c
      in b64_digit (n div 262144) # b64_digit (n div 4096) # b64_digit (n div 64) #
         b64_digit n # base64 rest)"
| "base64 [a, b] =
     (let n = unat a * 65536 + unat b * 256
      in [b64_digit (n div 262144), b64_digit (n div 4096), b64_digit (n div 64), CHR ''=''])"
| "base64 [a] =
     (let n = unat a * 65536
      in [b64_digit (n div 262144), b64_digit (n div 4096), CHR ''='', CHR ''=''])"
| "base64 [] = []"

section \<open>The upstream client\<close>

text \<open>
  The types \<^verbatim>\<open>ContentPart\<close> and \<^verbatim>\<open>Content\<close> of the source. The text of a part is
  whatever value the request's prompt is, and so is the mime type.
\<close>

record inline_data =
  mime_type :: jsval
  data :: string

record content_part =
  "text" :: "jsval option"
  inline_data :: "inline_data option"

record content =
  parts :: "content_part list"

text \<open>
  An HTTP request as the transport sees it: the URL and, for a POST, the
  \<^verbatim>\<open>contents\<close> of its JSON body \<^verbatim>\<open>{ contents }\<close>. The transport answers with a status
  and the parsed body, or fails; axios rejects a failure and every status outside 2xx.
\<close>

datatype http_request =
    HttpGet string
  | HttpPost string "content list"

datatype transport_result =
    NetworkFailure string
  | HttpResponse nat jsval

type_synonym transport = "http_request \<Rightarrow> transport_result"

definition axios :: "transport \<Rightarrow> http_request \<Rightarrow> js_error + jsval" where
  "axios tr req =
     (case tr req of
        NetworkFailure m \<Rightarrow> Inl (AxiosNetworkError m)
      | HttpResponse st d \<Rightarrow>
          if 200 \<le> st \<and> st < 300 then Inr d else Inl (AxiosStatusError st d))"

text \<open>
  What a request changes outside itself: the requests handed to the transport, in
  order, and the lines written with \<^verbatim>\<open>console.error\<close>.
\<close>

record world =
  calls :: "http_request list"
  console :: "(string \<times> js_error) list"

text \<open>
  The URL of the generation request, a template literal: the model is written into it
  by \<^verbatim>\<open>ToString\<close>.
\<close>

definition generate_url :: "string \<Rightarrow> jsval \<Rightarrow> js_error + string" where
  "generate_url key model =
     (case to_string model of
        Inl e \<Rightarrow> Inl e
      | Inr m \<Rightarrow>
          Inr (''https://generativelanguage.googleapis.com/v1beta/models/'' @ m @
               '':generateContent?key='' @ key))"

definition models_url :: "string \<Rightarrow> string" where
  "models_url key = ''https://generativelanguage.googleapis.com/v1beta/models?key='' @ key"

text \<open>
  \<^verbatim>\<open>getGeminiTextGeneration(model, contents)\<close>; \<open>key\<close> is the constant
  \<^verbatim>\<open>GOOGLE_API_KEY\<close>, the empty string when the environment sets none. The URL is
  built inside the \<^verbatim>\<open>try\<close> block, so an exception of its template literal is caught
  like a rejected request, before any request is made.
\<close>

definition getGeminiTextGeneration ::
  "string \<Rightarrow> transport \<Rightarrow> jsval \<Rightarrow> content list \<Rightarrow> world \<Rightarrow> (js_error + jsval) \<times> world" where
  "getGeminiTextGeneration key tr model contents w =
     (if key = [] then (Inl (Error ''GOOGLE_API_KEY environment variable is not set''), w)
      else
        (case generate_url key model of
           Inl e \<Rightarrow>
             (Inl (Error ''Failed to generate text''),
              w\<lparr>console := console w @ [(''Error generating text:'', e)]\<rparr>)
         | Inr url \<Rightarrow>
             let req = HttpPost url contents;
                 w1 = w\<lparr>calls := calls w @ [req]\<rparr>
             in (case axios tr req of
                   Inr d \<Rightarrow> (Inr d, w1)
                 | Inl e \<Rightarrow>
                     (Inl (Error ''Failed to generate text''),
                      w1\<lparr>console := console w1 @ [(''Error generating text:'', e)]\<rparr>))))"

text \<open>\<^verbatim>\<open>getGeminiModels()\<close>.\<close>

definition getGeminiModels :: "string \<Rightarrow> transport \<Rightarrow> world \<Rightarrow> (js_error + jsval) \<times> world" where
  "getGeminiModels key tr w =
     (if key = [] then (Inl (Error ''GOOGLE_API_KEY environment variable is not set''), w)
      else
        let req = HttpGet (models_url key);
            w1 = w\<lparr>calls := calls w @ [req]\<rparr>
        in case axios tr req of
             Inr d \<Rightarrow> (Inr d, w1)
           | Inl e \<Rightarrow>
               (Inl (Error ''Failed to fetch Gemini models''),
                w1\<lparr>console := console w1 @ [(''Error fetching models:'', e)]\<rparr>))"

section \<open>Generating a completion\<close>

text \<open>
  The first half of \<^verbatim>\<open>generateGeminiResponse(data)\<close>, up to the upstream call: the
  three defaults, the content block with its text part, and the inline-data part pushed
  onto it when \<^verbatim>\<open>inlineData\<close> is truthy. The result is the pair \<^verbatim>\<open>(model, contents)\<close>
  passed to \<^verbatim>\<open>getGeminiTextGeneration\<close>.
\<close>

definition request_contents :: "jsval \<Rightarrow> js_error + (jsval \<times> content list)" where
  "request_contents d =
     (case get_prop d ''model'' of Inl e \<Rightarrow> Inl e | Inr m \<Rightarrow>
     (case get_prop d ''prompt'' of Inl e \<Rightarrow> Inl e | Inr p \<Rightarrow>
     (case get_prop d ''mimeType'' of Inl e \<Rightarrow> Inl e | Inr mt \<Rightarrow>
     (case get_prop d ''inlineData'' of Inl e \<Rightarrow> Inl e | Inr inlineData \<Rightarrow>
        let model = js_or m (JStr ''gemini-1.5-flash'');
            prompt = js_or p (JStr ''No prompt provided'');
            mimeType = js_or mt (JStr ''text/plain'');
            contents = [\<lparr>parts = [\<lparr>text = Some prompt, inline_data = None\<rparr>]\<rparr>]
        in if truthy inlineData then
             (case buffer_from inlineData of
                Inl e \<Rightarrow> Inl e
              | Inr buf \<Rightarrow>
                  Inr (model,
                       contents[0 := (contents ! 0)\<lparr>parts := parts (contents ! 0) @
                         [\<lparr>text = None,
                           inline_data = Some \<lparr>mime_type = mimeType, data = base64 buf\<rparr>\<rparr>]\<rparr>]))
           else Inr (model, contents)))))"

text \<open>The shape of the object \<^verbatim>\<open>generateGeminiResponse\<close> returns.\<close>

record message =
  role :: string
  content :: string
  refusal :: jsval

record choice =
  index :: nat
  message :: message
  logprobs :: jsval
  finish_reason :: string

record usage =
  prompt_tokens :: jsval
  completion_tokens :: jsval
  total_tokens :: jsval

record completion =
  id :: string
  object :: string
  created :: int
  model :: jsval
  choices :: "choice list"
  usage :: usage
  system_fingerprint :: string

text \<open>\<^verbatim>\<open>parts.map((part) => part.text).join("")\<close>.\<close>

definition parts_text :: "jsval list \<Rightarrow> js_error + string" where
  "parts_text ps =
     (case try_map (\<lambda>part. get_prop part ''text'') ps of
        Inl e \<Rightarrow> Inl e
      | Inr ts \<Rightarrow> js_join [] ts)"

text \<open>
  \<^verbatim>\<open>candidate.content.parts.map(...).join("")\<close>; \<^verbatim>\<open>map\<close> is a method of arrays only, so
  on every other value of \<^verbatim>\<open>parts\<close> the call throws.
\<close>

definition candidate_content :: "jsval \<Rightarrow> js_error + string" where
  "candidate_content candidate =
     (case get_prop candidate ''content'' of Inl e \<Rightarrow> Inl e | Inr c \<Rightarrow>
     (case get_prop c ''parts'' of
        Inl e \<Rightarrow> Inl e
      | Inr (JArr ps) \<Rightarrow> parts_text ps
      | Inr v \<Rightarrow> Inl TypeError))"

text \<open>
  \<^verbatim>\<open>s.toLowerCase()\<close> on the letters A to Z; the finish reasons of the provider are
  written in these and the underscore.
\<close>

definition lower_char :: "char \<Rightarrow> char" where
  "lower_char c =
     (if 65 \<le> (of_char c :: nat) \<and> (of_char c :: nat) \<le> 90
      then char_of ((of_char c :: nat) + 32) else c)"

definition toLowerCase :: "string \<Rightarrow> string" where
  "toLowerCase s = map lower_char s"

text \<open>The callback of \<^verbatim>\<open>geminiResponse.candidates.map\<close>.\<close>

definition to_choice :: "nat \<Rightarrow> jsval \<Rightarrow> js_error + choice" where
  "to_choice i candidate =
     (case candidate_content candidate of Inl e \<Rightarrow> Inl e | Inr txt \<Rightarrow>
     (case get_prop candidate ''finishReason'' of
        Inl e \<Rightarrow> Inl e
      | Inr (JStr r) \<Rightarrow>
          Inr \<lparr>index = i,
               message = \<lparr>role = ''assistant'', content = txt, refusal = JNull\<rparr>,
               logprobs = JNull,
               finish_reason = toLowerCase r\<rparr>
      | Inr v \<Rightarrow> Inl TypeError))"

text \<open>
  \<^verbatim>\<open>generateUniqueId()\<close>: \<open>rnd\<close> is the string \<^verbatim>\<open>Math.random().toString(36)\<close>, of
  which \<^verbatim>\<open>substr(2, 9)\<close> keeps nine characters after the first two.
\<close>

definition generateUniqueId :: "string \<Rightarrow> string" where
  "generateUniqueId rnd = take 9 (drop 2 rnd)"

text \<open>
  The second half of \<^verbatim>\<open>generateGeminiResponse\<close>: the object built from the upstream
  reply. \<open>now\<close> is \<^verbatim>\<open>Date.now()\<close>, in milliseconds.
\<close>

definition transformedResponse :: "string \<Rightarrow> int \<Rightarrow> jsval \<Rightarrow> jsval \<Rightarrow> js_error + completion" where
  "transformedResponse rnd now mdl geminiResponse =
     (case get_prop geminiResponse ''candidates'' of
        Inl e \<Rightarrow> Inl e
      | Inr (JArr cands) \<Rightarrow>
          (case try_map (\<lambda>(i, c). to_choice i c) (enumerate 0 cands) of
             Inl e \<Rightarrow> Inl e
           | Inr chs \<Rightarrow>
              (case get_prop geminiResponse ''usageMetadata'' of Inl e \<Rightarrow> Inl e | Inr um \<Rightarrow>
              (case get_prop um ''promptTokenCount'' of Inl e \<Rightarrow> Inl e | Inr pt \<Rightarrow>
              (case get_prop um ''candidatesTokenCount'' of Inl e \<Rightarrow> Inl e | Inr ct \<Rightarrow>
              (case get_prop um ''totalTokenCount'' of Inl e \<Rightarrow> Inl e | Inr tt \<Rightarrow>
                 Inr \<lparr>id = ''chatcmpl-'' @ generateUniqueId rnd,
                      object = ''chat.completion'',
                      created = now div 1000,
                      model = mdl,
                      choices = chs,
                      usage = \<lparr>prompt_tokens = pt, completion_tokens = ct, total_tokens = tt\<rparr>,
                      system_fingerprint = ''fp_3aa7262c27''\<rparr>)))))
      | Inr v \<Rightarrow> Inl TypeError)"

text \<open>\<^verbatim>\<open>generateGeminiResponse(data)\<close>.\<close>

definition generateGeminiResponse ::
  "string \<Rightarrow> transport \<Rightarrow> string \<Rightarrow> int \<Rightarrow> jsval \<Rightarrow> world \<Rightarrow> (js_error + completion) \<times> world" where
  "generateGeminiResponse key tr rnd now d w =
     (case request_contents d of
        Inl e \<Rightarrow> (Inl e, w)
      | Inr (mdl, contents) \<Rightarrow>
          (case getGeminiTextGeneration key tr mdl contents w of
             (Inl e, w1) \<Rightarrow> (Inl e, w1)
           | (Inr geminiResponse, w1) \<Rightarrow> (transformedResponse rnd now mdl geminiResponse, w1)))"

section \<open>The HTTP routes\<close>

text \<open>
  \<^verbatim>\<open>s.replace(pattern, replacement)\<close> with a string pattern: the first occurrence of
  the pattern, wherever it starts, is replaced, and a string without one is returned
  as it is.
\<close>

fun js_replace :: "string \<Rightarrow> string \<Rightarrow> string \<Rightarrow> string" where
  "js_replace pat rep [] = (if pat = [] then rep else [])"
| "js_replace pat rep (c # cs) =
     (if prefix pat (c # cs) then rep @ drop (length pat) (c # cs)
      else c # js_replace pat rep cs)"

text \<open>What a handler answers: the status and the body given to \<^verbatim>\<open>res.json\<close>.\<close>

datatype http_response = Response nat jsval

text \<open>
  \<^verbatim>\<open>models.models.map((model) => model.name.replace("models/", ""))\<close>; \<^verbatim>\<open>replace\<close>
  is a method of strings only.
\<close>

definition model_name :: "jsval \<Rightarrow> js_error + string" where
  "model_name m =
     (case get_prop m ''name'' of
        Inl e \<Rightarrow> Inl e
      | Inr (JStr n) \<Rightarrow> Inr (js_replace ''models/'' [] n)
      | Inr v \<Rightarrow> Inl TypeError)"

definition modelNames :: "jsval \<Rightarrow> js_error + string list" where
  "modelNames models =
     (case get_prop models ''models'' of
        Inl e \<Rightarrow> Inl e
      | Inr (JArr ms) \<Rightarrow> try_map model_name ms
      | Inr v \<Rightarrow> Inl TypeError)"

text \<open>The handler of \<^verbatim>\<open>GET /v1/models\<close>.\<close>

definition get_v1_models :: "string \<Rightarrow> transport \<Rightarrow> world \<Rightarrow> http_response \<times> world" where
  "get_v1_models key tr w =
     (case getGeminiModels key tr w of
        (Inl e, w1) \<Rightarrow>
          (Response 500 (JObj [(''message'', JStr ''Failed to fetch Gemini models'')]),
           w1\<lparr>console := console w1 @ [(''Error fetching models:'', e)]\<rparr>)
      | (Inr models, w1) \<Rightarrow>
          (case modelNames models of
             Inl e \<Rightarrow>
               (Response 500 (JObj [(''message'', JStr ''Failed to fetch Gemini models'')]),
                w1\<lparr>console := console w1 @ [(''Error fetching models:'', e)]\<rparr>)
           | Inr names \<Rightarrow> (Response 200 (JArr (map JStr names)), w1)))"

text \<open>
  The JSON of a completion, as \<^verbatim>\<open>res.json\<close> writes it: a property whose value is
  \<^verbatim>\<open>undefined\<close> is left out.
\<close>

definition json_object :: "(string \<times> jsval) list \<Rightarrow> jsval" where
  "json_object kvs = JObj (filter (\<lambda>kv. snd kv \<noteq> JUndefined) kvs)"

definition choice_json :: "choice \<Rightarrow> jsval" where
  "choice_json c =
     JObj [(''index'', JNum (int (index c))),
           (''message'',
            JObj [(''role'', JStr (role (message c))),
                  (''content'', JStr (content (message c))),
                  (''refusal'', refusal (message c))]),
           (''logprobs'', logprobs c),
           (''finish_reason'', JStr (finish_reason c))]"

definition completion_json :: "completion \<Rightarrow> jsval" where
  "completion_json r =
     json_object
       [(''id'', JStr (id r)),
        (''object'', JStr (object r)),
        (''created'', JNum (created r)),
        (''model'', model r),
        (''choices'', JArr (map choice_json (choices r))),
        (''usage'',
         json_object [(''prompt_tokens'', prompt_tokens (usage r)),
                      (''completion_tokens'', completion_tokens (usage r)),
                      (''total_tokens'', total_tokens (usage r))]),
        (''system_fingerprint'', JStr (system_fingerprint r))]"

text \<open>The handler of \<^verbatim>\<open>POST /v1/chat/completions\<close>; \<open>d\<close> is \<^verbatim>\<open>req.body\<close>.\<close>

definition post_v1_chat_completions ::
  "string \<Rightarrow> transport \<Rightarrow> string \<Rightarrow> int \<Rightarrow> jsval \<Rightarrow> world \<Rightarrow> http_response \<times> world" where
  "post_v1_chat_completions key tr rnd now d w =
     (case generateGeminiResponse key tr rnd now d w of
        (Inl e, w1) \<Rightarrow>
          (Response 500 (JObj [(''message'', JStr ''Failed to generate response'')]),
           w1\<lparr>console := console w1 @ [(''Error generating response:'', e)]\<rparr>)
      | (Inr response, w1) \<Rightarrow> (Response 200 (completion_json response), w1))"

section \<open>The vocabulary of the specification\<close>

text \<open>
  A valid \<^verbatim>\<open>CompletionRequest\<close>, after the data model of the specification: an object
  whose \<^verbatim>\<open>model\<close>, \<^verbatim>\<open>prompt\<close> and \<^verbatim>\<open>mimeType\<close> are strings where they are given, and
  whose \<^verbatim>\<open>inlineData\<close>, where given, is raw bytes: a string, or an array of numbers
  from 0 to 255.
\<close>

fun is_byte :: "jsval \<Rightarrow> bool" where
  "is_byte (JNum n) = (0 \<le> n \<and> n < 256)"
| "is_byte v = False"

fun absent_or_string :: "jsval \<Rightarrow> bool" where
  "absent_or_string JUndefined = True"
| "absent_or_string (JStr s) = True"
| "absent_or_string v = False"

fun absent_or_bytes :: "jsval \<Rightarrow> bool" where
  "absent_or_bytes JUndefined = True"
| "absent_or_bytes (JStr s) = True"
| "absent_or_bytes (JArr xs) = list_all is_byte xs"
| "absent_or_bytes v = False"

definition field :: "(string \<times> jsval) list \<Rightarrow> string \<Rightarrow> jsval" where
  "field kvs k = (case map_of kvs k of None \<Rightarrow> JUndefined | Some v \<Rightarrow> v)"

fun valid_request :: "jsval \<Rightarrow> bool" where
  "valid_request (JObj kvs) =
     (absent_or_string (field kvs ''model'') \<and> absent_or_string (field kvs ''prompt'') \<and>
      absent_or_string (field kvs ''mimeType'') \<and> absent_or_bytes (field kvs ''inlineData''))"
| "valid_request v = False"

text \<open>The bytes a valid payload stands for.\<close>

fun byte_of :: "jsval \<Rightarrow> byte" where
  "byte_of (JNum n) = of_nat (nat n)"
| "byte_of v = 0"

fun given_bytes :: "jsval \<Rightarrow> byte list" where
  "given_bytes (JStr s) = map of_char s"
| "given_bytes (JArr xs) = map byte_of xs"
| "given_bytes v = []"

text \<open>
  The given or default value of a string field of a valid request: the field's string
  unless it is absent or empty.
\<close>

definition given_or_default :: "jsval \<Rightarrow> string \<Rightarrow> string \<Rightarrow> jsval" where
  "given_or_default d k dflt =
     (case get_prop d k of
        Inr (JStr s) \<Rightarrow> if s = [] then JStr dflt else JStr s
      | _ \<Rightarrow> JStr dflt)"

text \<open>The request without the field \<open>k\<close>.\<close>

fun del_prop :: "string \<Rightarrow> jsval \<Rightarrow> jsval" where
  "del_prop k (JObj kvs) = JObj (filter (\<lambda>kv. fst kv \<noteq> k) kvs)"
| "del_prop k v = v"

text \<open>
  The parts array \<^verbatim>\<open>candidate.content.parts\<close> of an upstream candidate, the
  concatenation of the texts of its text parts, and what it means for a part to be typed
  as the provider's contract has it: its \<^verbatim>\<open>text\<close>, if it has one, is a string.
\<close>

definition candidate_parts :: "jsval \<Rightarrow> jsval list option" where
  "candidate_parts candidate =
     (case get_prop candidate ''content'' of
        Inl e \<Rightarrow> None
      | Inr c \<Rightarrow> (case get_prop c ''parts'' of Inr (JArr ps) \<Rightarrow> Some ps | _ \<Rightarrow> None))"

definition text_of_part :: "jsval \<Rightarrow> string" where
  "text_of_part p = (case get_prop p ''text'' of Inr (JStr s) \<Rightarrow> s | _ \<Rightarrow> [])"

definition text_parts :: "jsval list \<Rightarrow> string" where
  "text_parts ps = concat (map text_of_part ps)"

definition text_typed :: "jsval \<Rightarrow> bool" where
  "text_typed p =
     (case get_prop p ''text'' of
        Inr (JStr s) \<Rightarrow> True
      | Inr JUndefined \<Rightarrow> True
      | _ \<Rightarrow> False)"

definition has_text :: "jsval \<Rightarrow> bool" where
  "has_text p = (get_prop p ''text'' \<noteq> Inr JUndefined)"

fun is_object :: "jsval \<Rightarrow> bool" where
  "is_object (JObj kvs) = True"
| "is_object v = False"

text \<open>An identifier with its leading \<^verbatim>\<open>models/\<close> segment, if it has one, removed.\<close>

definition strip_leading :: "string \<Rightarrow> string" where
  "strip_leading n = (if prefix ''models/'' n then drop (length ''models/'') n else n)"

text \<open>
  A request that axios rejects: the transport fails on it, or answers with a status
  outside 2xx.
\<close>

definition rejected :: "transport \<Rightarrow> http_request \<Rightarrow> bool" where
  "rejected tr req =
     (case tr req of
        NetworkFailure m \<Rightarrow> True
      | HttpResponse st d \<Rightarrow> \<not> (200 \<le> st \<and> st < 300))"

subsection \<open>Sample data\<close>

definition start :: world where
  "start = \<lparr>calls = [], console = []\<rparr>"

definition sample_parts :: "jsval list" where
  "sample_parts =
     [JObj [(''text'', JStr ''Hi '')],
      JObj [(''inline_data'',
             JObj [(''mime_type'', JStr ''image/png''), (''data'', JStr ''AA=='')])],
      JObj [(''text'', JStr ''there'')]]"

definition sample_candidate :: jsval where
  "sample_candidate =
     JObj [(''content'', JObj [(''parts'', JArr sample_parts)]),
           (''finishReason'', JStr ''STOP'')]"

definition sample_reply :: jsval where
  "sample_reply =
     JObj [(''candidates'', JArr [sample_candidate]),
           (''usageMetadata'',
            JObj [(''promptTokenCount'', JNum 3),
                  (''candidatesTokenCount'', JNum 2),
                  (''totalTokenCount'', JNum 5)])]"

definition sample_models :: jsval where
  "sample_models =
     JObj [(''models'',
            JArr [JObj [(''name'', JStr ''models/gemini-pro''), (''version'', JStr ''001'')],
                  JObj [(''name'', JStr ''models/models/x'')],
                  JObj [(''name'', JStr ''embedding'')]])]"

definition sample_transport :: transport where
  "sample_transport req =
     (case req of
        HttpGet u \<Rightarrow> HttpResponse 200 sample_models
      | HttpPost u cs \<Rightarrow> HttpResponse 200 sample_reply)"

definition odd_models :: jsval where
  "odd_models = JObj [(''models'', JArr [JObj [(''name'', JStr ''publishers/google/models/gemini-pro'')]])]"

definition odd_transport :: transport where
  "odd_transport req = HttpResponse 200 odd_models"

definition failing_transport :: transport where
  "failing_transport req = NetworkFailure ''ECONNREFUSED''"

definition unavailable_transport :: transport where
  "unavailable_transport req = HttpResponse 503 (JObj [(''error'', JStr ''unavailable'')])"

section \<open>Properties\<close>

subsection \<open>Request construction\<close>

lemma request_contents_shape:
  assumes "request_contents d = Inr (m, cs)"
  shows "\<exists>p rest. cs = [\<lparr>parts = \<lparr>text = Some p, inline_data = None\<rparr> # rest\<rparr>]"
  using assms
  by (auto simp: request_contents_def Let_def split: sum.splits if_splits)

lemma getGeminiTextGeneration_calls:
  "calls (snd (getGeminiTextGeneration key tr m cs w)) =
     (if key = [] then calls w
      else (case generate_url key m of
              Inl e \<Rightarrow> calls w
            | Inr url \<Rightarrow> calls w @ [HttpPost url cs]))"
  by (simp add: getGeminiTextGeneration_def Let_def split: sum.splits)

lemma generateGeminiResponse_world:
  "snd (generateGeminiResponse key tr rnd now d w) =
     (case request_contents d of
        Inl e \<Rightarrow> w
      | Inr (m, cs) \<Rightarrow> snd (getGeminiTextGeneration key tr m cs w))"
  by (simp add: generateGeminiResponse_def split: sum.splits prod.splits)

lemma generateGeminiResponse_calls:
  "calls (snd (generateGeminiResponse key tr rnd now d w)) =
     (case request_contents d of
        Inl e \<Rightarrow> calls w
      | Inr (m, cs) \<Rightarrow>
          if key = [] then calls w
          else (case generate_url key m of
                  Inl e \<Rightarrow> calls w
                | Inr url \<Rightarrow> calls w @ [HttpPost url cs]))"
  by (simp add: generateGeminiResponse_world getGeminiTextGeneration_calls
      split: sum.splits prod.splits)

lemma get_prop_reads:
  "get_prop d k = Inr v \<Longrightarrow> \<exists>v'. get_prop d k' = Inr v'"
  by (cases d) (auto split: option.splits)

lemma request_contents_succeeds:
  assumes "get_prop d ''inlineData'' = Inr v"
    and "\<not> truthy v \<or> (\<exists>b. buffer_from v = Inr b)"
  shows "\<exists>m cs. request_contents d = Inr (m, cs)"
proof -
  from get_prop_reads [OF assms(1)] obtain vm vp vt where
    r: "get_prop d ''model'' = Inr vm" "get_prop d ''prompt'' = Inr vp"
       "get_prop d ''mimeType'' = Inr vt" by metis
  show ?thesis
  proof (cases "truthy v")
    case True
    with assms(2) obtain b where "buffer_from v = Inr b" by blast
    with True r assms(1) show ?thesis
      unfolding request_contents_def by (simp add: Let_def)
  next
    case False
    with r assms(1) show ?thesis
      unfolding request_contents_def by (simp add: Let_def)
  qed
qed

text \<open>
  Claim C7. Whatever the request body is, with every field absent or of the wrong
  type, the contents built for the upstream call are one block with at least one part:
  this holds of every result of the construction, and of every request that
  \<^verbatim>\<open>generateGeminiResponse\<close> hands to the transport. The construction has a result
  whenever the body is not \<^verbatim>\<open>null\<close> or \<^verbatim>\<open>undefined\<close> and its \<^verbatim>\<open>inlineData\<close> is falsy or
  accepted by \<^verbatim>\<open>Buffer.from\<close>.
\<close>

theorem contents_never_empty:
  "(\<forall>m cs. request_contents d = Inr (m, cs) \<longrightarrow> (\<exists>c. cs = [c] \<and> parts c \<noteq> [])) \<and>
   (\<exists>new. calls (snd (generateGeminiResponse key tr rnd now d w)) = calls w @ new \<and>
      (\<forall>r \<in> set new. \<exists>u c. r = HttpPost u [c] \<and> parts c \<noteq> [])) \<and>
   (\<forall>v. get_prop d ''inlineData'' = Inr v \<and> (\<not> truthy v \<or> (\<exists>b. buffer_from v = Inr b)) \<longrightarrow>
      (\<exists>m c. request_contents d = Inr (m, [c]) \<and> parts c \<noteq> []))"
proof (intro conjI allI impI)
  fix v
  assume "get_prop d ''inlineData'' = Inr v \<and> (\<not> truthy v \<or> (\<exists>b. buffer_from v = Inr b))"
  then obtain m cs where rc: "request_contents d = Inr (m, cs)"
    using request_contents_succeeds [of d v] by blast
  from request_contents_shape [OF rc] rc
  show "\<exists>m c. request_contents d = Inr (m, [c]) \<and> parts c \<noteq> []"
    by auto
next
  fix m cs
  assume "request_contents d = Inr (m, cs)"
  from request_contents_shape [OF this] show "\<exists>c. cs = [c] \<and> parts c \<noteq> []"
    by auto
next
  show "\<exists>new. calls (snd (generateGeminiResponse key tr rnd now d w)) = calls w @ new \<and>
      (\<forall>r \<in> set new. \<exists>u c. r = HttpPost u [c] \<and> parts c \<noteq> [])"
  proof (cases "request_contents d")
    case (Inl e)
    then show ?thesis by (simp add: generateGeminiResponse_calls)
  next
    case (Inr mc)
    obtain m cs where mc: "mc = (m, cs)" by (cases mc)
    from request_contents_shape [of d m cs] Inr mc
    obtain c where "cs = [c]" "parts c \<noteq> []" by auto
    with Inr mc show ?thesis
      by (cases "key = []"; cases "generate_url key m")
        (simp_all add: generateGeminiResponse_calls)
  qed
qed

text \<open>
  The request with no field at all, and a request whose four fields all have the wrong
  type: a number for the model, \<^verbatim>\<open>false\<close> for the prompt, an object for the mime type
  and an array for the data.
\<close>

theorem contents_never_empty_witness:
  "(\<exists>m c. request_contents (JObj []) = Inr (m, [c]) \<and> parts c \<noteq> []) \<and>
   (\<exists>m c. request_contents
       (JObj [(''model'', JNum 7), (''prompt'', JBool False), (''mimeType'', JObj []),
              (''inlineData'', JArr [JNum 1])]) = Inr (m, [c]) \<and> parts c \<noteq> [])"
proof -
  have a: "request_contents (JObj []) =
      Inr (JStr ''gemini-1.5-flash'',
           [\<lparr>parts = [\<lparr>text = Some (JStr ''No prompt provided''), inline_data = None\<rparr>]\<rparr>])"
    by (simp add: request_contents_def js_or_def)
  have b: "request_contents
       (JObj [(''model'', JNum 7), (''prompt'', JBool False), (''mimeType'', JObj []),
              (''inlineData'', JArr [JNum 1])]) =
      Inr (JNum 7,
           [\<lparr>parts = [\<lparr>text = Some (JStr ''No prompt provided''), inline_data = None\<rparr>,
                      \<lparr>text = None,
                       inline_data = Some \<lparr>mime_type = JObj [], data = ''AQ==''\<rparr>\<rparr>]\<rparr>])"
    by (simp add: request_contents_def js_or_def b64_digit_def b64_alphabet_def)
  from contents_never_empty [THEN conjunct1, rule_format, OF a]
    contents_never_empty [THEN conjunct1, rule_format, OF b] a b
  show ?thesis by simp
qed

subsection \<open>The response built from the upstream reply\<close>



lemma try_map_set:
  "try_map f xs = Inr ys \<Longrightarrow> y \<in> set ys \<Longrightarrow> \<exists>x \<in> set xs. f x = Inr y"
  by (induction xs arbitrary: ys) (auto split: sum.splits)

lemma try_map_total:
  "(\<And>x. x \<in> set xs \<Longrightarrow> f x = Inr (g x)) \<Longrightarrow> try_map f xs = Inr (map g xs)"
  by (induction xs) auto

lemma to_choice_nulls:
  "to_choice i c = Inr ch \<Longrightarrow> refusal (message ch) = JNull \<and> logprobs ch = JNull"
  by (auto simp: to_choice_def split: sum.splits jsval.splits)

lemma transformedResponse_fixed:
  assumes "transformedResponse rnd now m g = Inr r"
  shows "system_fingerprint r = ''fp_3aa7262c27'' \<and>
         (\<forall>c \<in> set (choices r). refusal (message c) = JNull \<and> logprobs c = JNull)"
proof -
  from assms obtain cands chs where
    chs: "try_map (\<lambda>(i, c). to_choice i c) (enumerate 0 cands) = Inr chs"
    and r: "choices r = chs" "system_fingerprint r = ''fp_3aa7262c27''"
    by (auto simp: transformedResponse_def split: sum.splits jsval.splits)
  have "refusal (message c) = JNull \<and> logprobs c = JNull" if "c \<in> set chs" for c
  proof -
    from try_map_set [OF chs that] obtain i x where "to_choice i x = Inr c" by auto
    then show ?thesis by (rule to_choice_nulls)
  qed
  with r show ?thesis by simp
qed

lemma generateGeminiResponse_Inr:
  assumes "fst (generateGeminiResponse key tr rnd now d w) = Inr r"
  shows "\<exists>m cs url g. request_contents d = Inr (m, cs) \<and> key \<noteq> [] \<and>
           generate_url key m = Inr url \<and> axios tr (HttpPost url cs) = Inr g \<and>
           transformedResponse rnd now m g = Inr r"
  using assms
  by (auto simp: generateGeminiResponse_def getGeminiTextGeneration_def Let_def
      split: sum.splits prod.splits if_splits)

lemma lower_stop: "toLowerCase ''STOP'' = ''stop''"
  by code_simp

lemma sample_content: "candidate_content sample_candidate = Inr ''Hi there''"
  by (simp add: sample_candidate_def sample_parts_def candidate_content_def parts_text_def
      js_join_def)

lemma sample_choice:
  "to_choice 0 sample_candidate =
     Inr \<lparr>index = 0,
          message = \<lparr>role = ''assistant'', content = ''Hi there'', refusal = JNull\<rparr>,
          logprobs = JNull, finish_reason = ''stop''\<rparr>"
proof -
  have "get_prop sample_candidate ''finishReason'' = Inr (JStr ''STOP'')"
    by (simp add: sample_candidate_def)
  then show ?thesis by (simp add: to_choice_def sample_content lower_stop)
qed

lemma sample_run:
  "generateGeminiResponse ''K'' sample_transport ''0.4fzyo82mvyr'' 1700000000123
     (JObj [(''prompt'', JStr ''Hello'')]) start =
   (Inr \<lparr>id = ''chatcmpl-4fzyo82mv'', object = ''chat.completion'', created = 1700000000,
         model = JStr ''gemini-1.5-flash'',
         choices = [\<lparr>index = 0,
                     message = \<lparr>role = ''assistant'', content = ''Hi there'', refusal = JNull\<rparr>,
                     logprobs = JNull, finish_reason = ''stop''\<rparr>],
         usage = \<lparr>prompt_tokens = JNum 3, completion_tokens = JNum 2, total_tokens = JNum 5\<rparr>,
         system_fingerprint = ''fp_3aa7262c27''\<rparr>,
    \<lparr>calls =
       [HttpPost ''https://generativelanguage.googleapis.com/v1beta/models/gemini-1.5-flash:generateContent?key=K''
          [\<lparr>parts = [\<lparr>text = Some (JStr ''Hello''), inline_data = None\<rparr>]\<rparr>]],
     console = []\<rparr>)"
  by (simp add: generateGeminiResponse_def request_contents_def js_or_def
      getGeminiTextGeneration_def axios_def sample_transport_def sample_reply_def
      transformedResponse_def sample_choice generateUniqueId_def start_def
      generate_url_def Let_def)

text \<open>
  Claim C8. Whenever \<^verbatim>\<open>generateGeminiResponse\<close> returns a response, for whatever
  request and upstream reply, its \<^verbatim>\<open>system_fingerprint\<close> is the literal
  \<^verbatim>\<open>fp_3aa7262c27\<close>, and the \<^verbatim>\<open>refusal\<close> of every choice's message and the
  \<^verbatim>\<open>logprobs\<close> of every choice are \<^verbatim>\<open>null\<close>.
\<close>

theorem fingerprint_and_nulls:
  assumes "fst (generateGeminiResponse key tr rnd now d w) = Inr r"
  shows "system_fingerprint r = ''fp_3aa7262c27'' \<and>
         (\<forall>c \<in> set (choices r). refusal (message c) = JNull \<and> logprobs c = JNull)"
proof -
  from generateGeminiResponse_Inr [OF assms] obtain m g
    where "transformedResponse rnd now m g = Inr r" by blast
  then show ?thesis by (rule transformedResponse_fixed)
qed

theorem fingerprint_and_nulls_witness:
  "\<exists>r c. fst (generateGeminiResponse ''K'' sample_transport ''0.4fzyo82mvyr'' 1700000000123
              (JObj [(''prompt'', JStr ''Hello'')]) start) = Inr r \<and>
     choices r = [c] \<and> system_fingerprint r = ''fp_3aa7262c27'' \<and>
     refusal (message c) = JNull \<and> logprobs c = JNull"
  using fingerprint_and_nulls [of "''K''" sample_transport "''0.4fzyo82mvyr''" 1700000000123
      "JObj [(''prompt'', JStr ''Hello'')]" start]
  by (simp add: sample_run)

subsection \<open>Failures\<close>

lemma axios_rejected:
  "rejected tr req \<Longrightarrow> \<exists>e. axios tr req = Inl e"
  by (auto simp: rejected_def axios_def split: transport_result.splits)

lemma getGeminiModels_no_key:
  "getGeminiModels [] tr w = (Inl (Error ''GOOGLE_API_KEY environment variable is not set''), w)"
  by (simp add: getGeminiModels_def)

lemma getGeminiTextGeneration_no_key:
  "getGeminiTextGeneration [] tr m cs w =
     (Inl (Error ''GOOGLE_API_KEY environment variable is not set''), w)"
  by (simp add: getGeminiTextGeneration_def)

lemma getGeminiModels_rejected:
  "rejected tr (HttpGet (models_url key)) \<Longrightarrow> \<exists>e. fst (getGeminiModels key tr w) = Inl e"
  using axios_rejected [of tr "HttpGet (models_url key)"]
  by (auto simp: getGeminiModels_def Let_def)

lemma generateGeminiResponse_rejected:
  assumes "\<forall>req. rejected tr req"
  shows "\<exists>e. fst (generateGeminiResponse key tr rnd now d w) = Inl e"
proof (cases "request_contents d")
  case (Inl e)
  then show ?thesis by (simp add: generateGeminiResponse_def)
next
  case (Inr mc)
  obtain m cs where mc: "mc = (m, cs)" by (cases mc)
  show ?thesis
  proof (cases "generate_url key m")
    case (Inl e)
    with Inr mc show ?thesis
      by (simp add: generateGeminiResponse_def getGeminiTextGeneration_def)
  next
    case url: (Inr url)
    from assms axios_rejected [of tr "HttpPost url cs"]
    obtain e where "axios tr (HttpPost url cs) = Inl e" by blast
    with Inr mc url show ?thesis
      by (simp add: generateGeminiResponse_def getGeminiTextGeneration_def Let_def)
  qed
qed

lemma get_v1_models_failed:
  "fst (getGeminiModels key tr w) = Inl e \<Longrightarrow>
   fst (get_v1_models key tr w) =
     Response 500 (JObj [(''message'', JStr ''Failed to fetch Gemini models'')])"
  by (cases "getGeminiModels key tr w") (simp add: get_v1_models_def)

lemma post_v1_chat_completions_failed:
  "fst (generateGeminiResponse key tr rnd now d w) = Inl e \<Longrightarrow>
   fst (post_v1_chat_completions key tr rnd now d w) =
     Response 500 (JObj [(''message'', JStr ''Failed to generate response'')])"
  by (cases "generateGeminiResponse key tr rnd now d w") (simp add: post_v1_chat_completions_def)

lemma generateGeminiResponse_no_key:
  "generateGeminiResponse [] tr rnd now d w =
     (case request_contents d of
        Inl e \<Rightarrow> (Inl e, w)
      | Inr mc \<Rightarrow> (Inl (Error ''GOOGLE_API_KEY environment variable is not set''), w))"
  by (simp add: generateGeminiResponse_def getGeminiTextGeneration_no_key
      split: sum.splits prod.splits)

text \<open>
  Claim C5. Whatever makes one of the two operations fail (the missing key, a transport
  failure, an upstream status outside 2xx, or any other exception), the route answers
  500 with the one fixed body, \<^verbatim>\<open>{"message": "Failed to fetch Gemini models"}\<close> for
  \<^verbatim>\<open>GET /v1/models\<close> and \<^verbatim>\<open>{"message": "Failed to generate response"}\<close> for
  \<^verbatim>\<open>POST /v1/chat/completions\<close>; the error itself only reaches the console.
\<close>

theorem failures_answer_500:
  "(\<forall>e. fst (getGeminiModels key tr w) = Inl e \<longrightarrow>
      fst (get_v1_models key tr w) =
        Response 500 (JObj [(''message'', JStr ''Failed to fetch Gemini models'')])) \<and>
   (\<forall>e. fst (generateGeminiResponse key tr rnd now d w) = Inl e \<longrightarrow>
      fst (post_v1_chat_completions key tr rnd now d w) =
        Response 500 (JObj [(''message'', JStr ''Failed to generate response'')])) \<and>
   (key = [] \<or> rejected tr (HttpGet (models_url key)) \<longrightarrow>
      fst (get_v1_models key tr w) =
        Response 500 (JObj [(''message'', JStr ''Failed to fetch Gemini models'')])) \<and>
   (key = [] \<or> (\<forall>req. rejected tr req) \<longrightarrow>
      fst (post_v1_chat_completions key tr rnd now d w) =
        Response 500 (JObj [(''message'', JStr ''Failed to generate response'')]))"
proof (intro conjI allI impI)
  fix e
  assume "fst (getGeminiModels key tr w) = Inl e"
  then show "fst (get_v1_models key tr w) =
      Response 500 (JObj [(''message'', JStr ''Failed to fetch Gemini models'')])"
    by (rule get_v1_models_failed)
next
  fix e
  assume "fst (generateGeminiResponse key tr rnd now d w) = Inl e"
  then show "fst (post_v1_chat_completions key tr rnd now d w) =
      Response 500 (JObj [(''message'', JStr ''Failed to generate response'')])"
    by (rule post_v1_chat_completions_failed)
next
  assume "key = [] \<or> rejected tr (HttpGet (models_url key))"
  then have "\<exists>e. fst (getGeminiModels key tr w) = Inl e"
  proof
    assume "key = []"
    then show ?thesis by (simp add: getGeminiModels_no_key)
  next
    assume "rejected tr (HttpGet (models_url key))"
    then show ?thesis by (rule getGeminiModels_rejected)
  qed
  then show "fst (get_v1_models key tr w) =
      Response 500 (JObj [(''message'', JStr ''Failed to fetch Gemini models'')])"
    using get_v1_models_failed by blast
next
  assume "key = [] \<or> (\<forall>req. rejected tr req)"
  then have "\<exists>e. fst (generateGeminiResponse key tr rnd now d w) = Inl e"
  proof
    assume "key = []"
    then show ?thesis
      by (cases "request_contents d") (simp_all add: generateGeminiResponse_no_key)
  next
    assume "\<forall>req. rejected tr req"
    then show ?thesis by (rule generateGeminiResponse_rejected)
  qed
  then show "fst (post_v1_chat_completions key tr rnd now d w) =
      Response 500 (JObj [(''message'', JStr ''Failed to generate response'')])"
    using post_v1_chat_completions_failed by blast
qed

theorem failures_answer_500_witness:
  "fst (get_v1_models [] sample_transport start) =
     Response 500 (JObj [(''message'', JStr ''Failed to fetch Gemini models'')]) \<and>
   fst (get_v1_models ''K'' failing_transport start) =
     Response 500 (JObj [(''message'', JStr ''Failed to fetch Gemini models'')]) \<and>
   fst (get_v1_models ''K'' unavailable_transport start) =
     Response 500 (JObj [(''message'', JStr ''Failed to fetch Gemini models'')]) \<and>
   fst (post_v1_chat_completions [] sample_transport ''0.4fzyo82mvyr'' 1700000000123
          (JObj [(''prompt'', JStr ''Hello'')]) start) =
     Response 500 (JObj [(''message'', JStr ''Failed to generate response'')]) \<and>
   fst (post_v1_chat_completions ''K'' failing_transport ''0.4fzyo82mvyr'' 1700000000123
          (JObj [(''prompt'', JStr ''Hello'')]) start) =
     Response 500 (JObj [(''message'', JStr ''Failed to generate response'')]) \<and>
   fst (post_v1_chat_completions ''K'' unavailable_transport ''0.4fzyo82mvyr'' 1700000000123
          (JObj [(''prompt'', JStr ''Hello'')]) start) =
     Response 500 (JObj [(''message'', JStr ''Failed to generate response'')])"
proof -
  have f: "\<forall>req. rejected failing_transport req"
    by (simp add: rejected_def failing_transport_def)
  have u: "\<forall>req. rejected unavailable_transport req"
    by (simp add: rejected_def unavailable_transport_def)
  show ?thesis
    using failures_answer_500 [of "[]" sample_transport start]
      failures_answer_500 [of "''K''" failing_transport start]
      failures_answer_500 [of "''K''" unavailable_transport start] f u
    by simp
qed

lemma bytes_to_uint8:
  "list_all is_byte xs \<Longrightarrow> try_map to_uint8 xs = Inr (map byte_of xs)"
proof (induction xs)
  case Nil
  then show ?case by simp
next
  case (Cons x xs)
  then show ?case by (cases x) simp_all
qed

lemma buffer_from_given_bytes:
  assumes "absent_or_bytes v" and "v \<noteq> JUndefined"
  shows "buffer_from v = Inr (given_bytes v)"
  using assms by (cases v) (simp_all add: bytes_to_uint8)

lemma absent_or_bytes_buffer:
  "absent_or_bytes v \<Longrightarrow> v \<noteq> JUndefined \<Longrightarrow> \<exists>b. buffer_from v = Inr b"
  by (simp add: buffer_from_given_bytes)

lemma valid_request_contents:
  assumes "valid_request d"
  shows "\<exists>m cs. request_contents d = Inr (m, cs)"
proof -
  from assms obtain kvs where d: "d = JObj kvs" by (cases d) auto
  with assms have b: "absent_or_bytes (field kvs ''inlineData'')" by simp
  show ?thesis
  proof (cases "truthy (field kvs ''inlineData'')")
    case True
    then have "field kvs ''inlineData'' \<noteq> JUndefined" by auto
    from absent_or_bytes_buffer [OF b this] obtain buf
      where "buffer_from (field kvs ''inlineData'') = Inr buf" ..
    with True d show ?thesis
      by (auto simp: request_contents_def field_def Let_def split: option.splits)
  next
    case False
    with d show ?thesis
      by (auto simp: request_contents_def field_def Let_def split: option.splits)
  qed
qed

text \<open>
  Claim C4, as the code has it. With the empty key, both operations fail and leave the
  world as it was, so the transport sees no call. \<^verbatim>\<open>getGeminiModels\<close> fails with the
  error \<^verbatim>\<open>GOOGLE_API_KEY environment variable is not set\<close>, and so does
  \<^verbatim>\<open>generateGeminiResponse\<close> for every request whose contents can be built, every
  valid request among them. A request whose contents cannot be built fails before the
  key is looked at, with the exception of the construction.
\<close>

theorem no_key_no_call:
  "getGeminiModels [] tr w =
     (Inl (Error ''GOOGLE_API_KEY environment variable is not set''), w) \<and>
   calls (snd (get_v1_models [] tr w)) = calls w \<and>
   (\<exists>e. generateGeminiResponse [] tr rnd now d w = (Inl e, w)) \<and>
   calls (snd (post_v1_chat_completions [] tr rnd now d w)) = calls w \<and>
   ((\<exists>m cs. request_contents d = Inr (m, cs)) \<longrightarrow>
      generateGeminiResponse [] tr rnd now d w =
        (Inl (Error ''GOOGLE_API_KEY environment variable is not set''), w)) \<and>
   (valid_request d \<longrightarrow>
      generateGeminiResponse [] tr rnd now d w =
        (Inl (Error ''GOOGLE_API_KEY environment variable is not set''), w)) \<and>
   (\<forall>e. request_contents d = Inl e \<longrightarrow>
      generateGeminiResponse [] tr rnd now d w = (Inl e, w))"
proof -
  have 1: "getGeminiModels [] tr w =
     (Inl (Error ''GOOGLE_API_KEY environment variable is not set''), w)"
    by (rule getGeminiModels_no_key)
  have 2: "calls (snd (get_v1_models [] tr w)) = calls w"
    by (simp add: get_v1_models_def getGeminiModels_no_key)
  have 3: "\<exists>e. generateGeminiResponse [] tr rnd now d w = (Inl e, w)"
    by (cases "request_contents d") (simp_all add: generateGeminiResponse_no_key)
  then have 4: "calls (snd (post_v1_chat_completions [] tr rnd now d w)) = calls w"
    by (auto simp: post_v1_chat_completions_def)
  have 5: "generateGeminiResponse [] tr rnd now d w =
        (Inl (Error ''GOOGLE_API_KEY environment variable is not set''), w)"
    if "\<exists>m cs. request_contents d = Inr (m, cs)"
    using that by (auto simp: generateGeminiResponse_no_key)
  have 6: "generateGeminiResponse [] tr rnd now d w = (Inl e, w)"
    if "request_contents d = Inl e" for e
    using that by (simp add: generateGeminiResponse_no_key)
  from 1 2 3 4 5 6 valid_request_contents [of d] show ?thesis by blast
qed

theorem no_key_no_call_witness:
  "getGeminiModels [] sample_transport start =
     (Inl (Error ''GOOGLE_API_KEY environment variable is not set''), start) \<and>
   valid_request (JObj [(''prompt'', JStr ''Hello''), (''inlineData'', JStr ''hi!'')]) \<and>
   generateGeminiResponse [] sample_transport ''0.4fzyo82mvyr'' 1700000000123
       (JObj [(''prompt'', JStr ''Hello''), (''inlineData'', JStr ''hi!'')]) start =
     (Inl (Error ''GOOGLE_API_KEY environment variable is not set''), start) \<and>
   calls (snd (post_v1_chat_completions [] sample_transport ''0.4fzyo82mvyr'' 1700000000123
       (JObj [(''prompt'', JStr ''Hello''), (''inlineData'', JStr ''hi!'')]) start)) = []"
proof -
  have v: "valid_request (JObj [(''prompt'', JStr ''Hello''), (''inlineData'', JStr ''hi!'')])"
    by (simp add: field_def)
  have s: "calls start = []" by (simp add: start_def)
  from no_key_no_call [of sample_transport start "''0.4fzyo82mvyr''" 1700000000123
      "JObj [(''prompt'', JStr ''Hello''), (''inlineData'', JStr ''hi!'')]"] v s
  show ?thesis by simp
qed

text \<open>
  The claim as stated fails for the request \<^verbatim>\<open>{"inlineData": 5}\<close>: the number is truthy
  and \<^verbatim>\<open>Buffer.from(5)\<close> throws a \<^verbatim>\<open>TypeError\<close>, which is the failure of the operation
  (still with no upstream call).
\<close>

theorem no_key_type_error_counterexample:
  "fst (generateGeminiResponse [] sample_transport ''0.4fzyo82mvyr'' 1700000000123
          (JObj [(''inlineData'', JNum 5)]) start) = Inl TypeError \<and>
   fst (generateGeminiResponse [] sample_transport ''0.4fzyo82mvyr'' 1700000000123
          (JObj [(''inlineData'', JNum 5)]) start) \<noteq>
     Inl (Error ''GOOGLE_API_KEY environment variable is not set'')"
  by (simp add: generateGeminiResponse_def request_contents_def js_or_def)

lemma request_contents_hello:
  "request_contents (JObj [(''prompt'', JStr ''Hello'')]) =
     Inr (JStr ''gemini-1.5-flash'',
          [\<lparr>parts = [\<lparr>text = Some (JStr ''Hello''), inline_data = None\<rparr>]\<rparr>])"
  by (simp add: request_contents_def js_or_def)

text \<open>
  Claim C6. For the request \<^verbatim>\<open>{prompt: "Hello"}\<close> the upstream call is made with the
  model \<^verbatim>\<open>gemini-1.5-flash\<close> and the contents \<^verbatim>\<open>[{parts: [{text: "Hello"}]}]\<close>, and
  the model is what the URL of the request names. In general a request without
  \<^verbatim>\<open>model\<close> gets the model \<^verbatim>\<open>gemini-1.5-flash\<close>, one without \<^verbatim>\<open>prompt\<close> the text
  \<^verbatim>\<open>No prompt provided\<close>, and one without \<^verbatim>\<open>mimeType\<close> the mime type \<^verbatim>\<open>text/plain\<close>
  on its inline-data part.
\<close>

theorem absent_fields_take_defaults:
  "request_contents (JObj [(''prompt'', JStr ''Hello'')]) =
     Inr (JStr ''gemini-1.5-flash'',
          [\<lparr>parts = [\<lparr>text = Some (JStr ''Hello''), inline_data = None\<rparr>]\<rparr>]) \<and>
   (key \<noteq> [] \<longrightarrow>
      calls (snd (generateGeminiResponse key tr rnd now (JObj [(''prompt'', JStr ''Hello'')]) w)) =
        calls w @
        [HttpPost (''https://generativelanguage.googleapis.com/v1beta/models/gemini-1.5-flash:generateContent?key='' @ key)
           [\<lparr>parts = [\<lparr>text = Some (JStr ''Hello''), inline_data = None\<rparr>]\<rparr>]]) \<and>
   (\<forall>m cs. request_contents d = Inr (m, cs) \<and> get_prop d ''model'' = Inr JUndefined \<longrightarrow>
      m = JStr ''gemini-1.5-flash'') \<and>
   (\<forall>m cs. request_contents d = Inr (m, cs) \<and> get_prop d ''prompt'' = Inr JUndefined \<longrightarrow>
      (\<exists>rest. cs = [\<lparr>parts = \<lparr>text = Some (JStr ''No prompt provided''), inline_data = None\<rparr>
                             # rest\<rparr>])) \<and>
   (\<forall>m cs p i. request_contents d = Inr (m, cs) \<and> get_prop d ''mimeType'' = Inr JUndefined \<and>
      p \<in> set (concat (map parts cs)) \<and> inline_data p = Some i \<longrightarrow>
      mime_type i = JStr ''text/plain'')"
proof (intro conjI allI impI)
  show "request_contents (JObj [(''prompt'', JStr ''Hello'')]) =
     Inr (JStr ''gemini-1.5-flash'',
          [\<lparr>parts = [\<lparr>text = Some (JStr ''Hello''), inline_data = None\<rparr>]\<rparr>])"
    by (rule request_contents_hello)
next
  assume "key \<noteq> []"
  then show "calls (snd (generateGeminiResponse key tr rnd now (JObj [(''prompt'', JStr ''Hello'')]) w)) =
        calls w @
        [HttpPost (''https://generativelanguage.googleapis.com/v1beta/models/gemini-1.5-flash:generateContent?key='' @ key)
           [\<lparr>parts = [\<lparr>text = Some (JStr ''Hello''), inline_data = None\<rparr>]\<rparr>]]"
    by (simp add: generateGeminiResponse_calls request_contents_hello generate_url_def)
next
  fix m cs
  assume "request_contents d = Inr (m, cs) \<and> get_prop d ''model'' = Inr JUndefined"
  then show "m = JStr ''gemini-1.5-flash''"
    by (auto simp: request_contents_def js_or_def Let_def split: sum.splits if_splits)
next
  fix m cs
  assume "request_contents d = Inr (m, cs) \<and> get_prop d ''prompt'' = Inr JUndefined"
  then show "\<exists>rest. cs = [\<lparr>parts = \<lparr>text = Some (JStr ''No prompt provided''), inline_data = None\<rparr>
                             # rest\<rparr>]"
    by (auto simp: request_contents_def js_or_def Let_def split: sum.splits if_splits)
next
  fix m cs p i
  assume "request_contents d = Inr (m, cs) \<and> get_prop d ''mimeType'' = Inr JUndefined \<and>
      p \<in> set (concat (map parts cs)) \<and> inline_data p = Some i"
  then show "mime_type i = JStr ''text/plain''"
    by (auto simp: request_contents_def js_or_def Let_def split: sum.splits if_splits)
qed

lemma request_contents_inline_only:
  "request_contents (JObj [(''inlineData'', JStr ''hi!'')]) =
     Inr (JStr ''gemini-1.5-flash'',
          [\<lparr>parts = [\<lparr>text = Some (JStr ''No prompt provided''), inline_data = None\<rparr>,
                     \<lparr>text = None,
                      inline_data = Some \<lparr>mime_type = JStr ''text/plain'', data = ''aGkh''\<rparr>\<rparr>]\<rparr>])"
  by (simp add: request_contents_def js_or_def b64_digit_def b64_alphabet_def)

theorem absent_fields_take_defaults_witness:
  "calls (snd (generateGeminiResponse ''K'' sample_transport ''0.4fzyo82mvyr'' 1700000000123
       (JObj [(''prompt'', JStr ''Hello'')]) start)) =
     [HttpPost ''https://generativelanguage.googleapis.com/v1beta/models/gemini-1.5-flash:generateContent?key=K''
        [\<lparr>parts = [\<lparr>text = Some (JStr ''Hello''), inline_data = None\<rparr>]\<rparr>]] \<and>
   (\<exists>p q i. request_contents (JObj [(''inlineData'', JStr ''hi!'')]) =
       Inr (JStr ''gemini-1.5-flash'', [\<lparr>parts = [p, q]\<rparr>]) \<and>
     text p = Some (JStr ''No prompt provided'') \<and> inline_data q = Some i \<and>
     mime_type i = JStr ''text/plain'')"
proof -
  have k: "''K'' \<noteq> []" by simp
  have s: "calls start = []" by (simp add: start_def)
  have a: "get_prop (JObj [(''inlineData'', JStr ''hi!'')]) ''model'' = Inr JUndefined"
    "get_prop (JObj [(''inlineData'', JStr ''hi!'')]) ''prompt'' = Inr JUndefined"
    "get_prop (JObj [(''inlineData'', JStr ''hi!'')]) ''mimeType'' = Inr JUndefined"
    by simp_all
  from absent_fields_take_defaults [of "''K''" sample_transport "''0.4fzyo82mvyr''" 1700000000123 start
      "JObj [(''inlineData'', JStr ''hi!'')]"] k s a request_contents_inline_only
  show ?thesis by simp
qed

subsection \<open>Choices and candidates\<close>

lemma intercalate_empty: "intercalate [] xs = concat xs"
  by (induction "[] :: string" xs rule: intercalate.induct) simp_all

lemma js_join_empty:
  "js_join [] ts = (case join_strings ts of Inl e \<Rightarrow> Inl e | Inr ss \<Rightarrow> Inr (concat ss))"
  by (simp add: js_join_def intercalate_empty split: sum.splits)

lemma text_typed_cases:
  assumes "text_typed p"
  shows "get_prop p ''text'' = Inr JUndefined \<or> (\<exists>s. get_prop p ''text'' = Inr (JStr s))"
proof (cases "get_prop p ''text''")
  case (Inl e)
  with assms show ?thesis by (simp add: text_typed_def)
next
  case (Inr v)
  with assms show ?thesis by (cases v) (simp_all add: text_typed_def)
qed

lemma join_strings_texts:
  assumes "\<forall>p \<in> set ps. get_prop p ''text'' = Inr (g p)"
    and "\<forall>p \<in> set ps. g p = JUndefined \<or> (\<exists>s. g p = JStr s)"
  shows "join_strings (map g ps) = Inr (map text_of_part ps)"
  using assms
proof (induction ps)
  case Nil
  then show ?case by simp
next
  case (Cons p ps)
  then have "join_strings (map g ps) = Inr (map text_of_part ps)" by simp
  moreover from Cons.prems
  have "(if g p = JUndefined \<or> g p = JNull then Inr [] else to_string (g p)) =
      Inr (text_of_part p)"
    by (auto simp: text_of_part_def)
  ultimately show ?case by simp
qed

lemma parts_text_typed:
  assumes "\<forall>p \<in> set ps. text_typed p"
  shows "parts_text ps = Inr (text_parts ps)"
proof -
  let ?g = "\<lambda>p. case get_prop p ''text'' of Inr v \<Rightarrow> v | Inl e \<Rightarrow> JUndefined"
  have g: "get_prop p ''text'' = Inr (?g p)" if "p \<in> set ps" for p
    using assms that text_typed_cases [of p] by auto
  have t: "?g p = JUndefined \<or> (\<exists>s. ?g p = JStr s)" if "p \<in> set ps" for p
    using assms that text_typed_cases [of p] by auto
  from g have "try_map (\<lambda>part. get_prop part ''text'') ps = Inr (map ?g ps)"
    by (rule try_map_total)
  moreover from g t have "join_strings (map ?g ps) = Inr (map text_of_part ps)"
    by (intro join_strings_texts) blast+
  ultimately show ?thesis
    by (simp add: parts_text_def js_join_empty text_parts_def)
qed







lemma object_text:
  "is_object p \<Longrightarrow> get_prop p ''text'' = Inr (case p of JObj kvs \<Rightarrow> field kvs ''text'' | _ \<Rightarrow> JUndefined)"
  by (cases p) (simp_all add: field_def split: option.splits)

lemma js_join_skips_undefined:
  "js_join [] (filter (\<lambda>x. x \<noteq> JUndefined) xs) = js_join [] xs"
proof (induction xs)
  case Nil
  then show ?case by simp
next
  case (Cons x xs)
  then have ih: "(case join_strings (filter (\<lambda>x. x \<noteq> JUndefined) xs) of
        Inl e \<Rightarrow> Inl e | Inr ss \<Rightarrow> Inr (concat ss)) =
      (case join_strings xs of Inl e \<Rightarrow> Inl e | Inr ss \<Rightarrow> Inr (concat ss))"
    by (simp add: js_join_empty)
  show ?case
  proof (cases "x = JUndefined")
    case True
    with ih show ?thesis by (simp add: js_join_empty split: sum.splits)
  next
    case False
    with ih show ?thesis
      by (cases "join_strings (filter (\<lambda>x. x \<noteq> JUndefined) xs)"; cases "join_strings xs")
        (simp_all add: js_join_empty split: sum.splits)
  qed
qed

lemma join_strings_failure:
  "join_strings xs = Inl e \<Longrightarrow>
   \<exists>x \<in> set xs. x \<noteq> JUndefined \<and> x \<noteq> JNull \<and> to_string x = Inl e"
  by (induction xs) (auto split: sum.splits if_splits)

lemma parts_text_objects:
  assumes "\<forall>p \<in> set ps. is_object p"
  shows "parts_text ps =
     js_join [] (map (\<lambda>p. case p of JObj kvs \<Rightarrow> field kvs ''text'' | _ \<Rightarrow> JUndefined) ps)"
proof -
  let ?g = "\<lambda>p. case p of JObj kvs \<Rightarrow> field kvs ''text'' | _ \<Rightarrow> JUndefined"
  from assms have "get_prop p ''text'' = Inr (?g p)" if "p \<in> set ps" for p
    using that by (simp add: object_text)
  then have "try_map (\<lambda>part. get_prop part ''text'') ps = Inr (map ?g ps)"
    by (rule try_map_total)
  then show ?thesis by (simp add: parts_text_def)
qed

lemma parts_text_filter:
  assumes "\<forall>p \<in> set ps. is_object p"
  shows "parts_text (filter has_text ps) = parts_text ps"
proof -
  let ?g = "\<lambda>p. case p of JObj kvs \<Rightarrow> field kvs ''text'' | _ \<Rightarrow> JUndefined"
  from assms have h: "has_text p \<longleftrightarrow> ?g p \<noteq> JUndefined" if "p \<in> set ps" for p
    using that by (simp add: has_text_def object_text)
  then have "filter has_text ps = filter (\<lambda>p. ?g p \<noteq> JUndefined) ps"
    by (intro filter_cong) simp_all
  then have "map ?g (filter has_text ps) = filter (\<lambda>x. x \<noteq> JUndefined) (map ?g ps)"
    by (simp add: filter_map comp_def)
  moreover from assms have "\<forall>p \<in> set (filter has_text ps). is_object p" by simp
  ultimately show ?thesis
    using parts_text_objects [OF assms] parts_text_objects [of "filter has_text ps"]
    by (simp add: js_join_skips_undefined)
qed

text \<open>
  Claim C10. Where the parts of a candidate are objects, the value of
  \<^verbatim>\<open>candidate.content.parts.map((part) => part.text).join("")\<close> is the one it has for the
  parts that have a \<^verbatim>\<open>text\<close>: a part without one (an inline-data part, say) adds
  nothing to the content, neither the word \<^verbatim>\<open>undefined\<close> nor an exception. With no
  part that has a \<^verbatim>\<open>text\<close> the content is the empty string; where every \<^verbatim>\<open>text\<close>
  there is is a string, the content is the concatenation of these strings; and if the
  expression throws, what throws is the conversion to a string of the \<^verbatim>\<open>text\<close> that
  some part has.
\<close>

theorem textless_parts_add_nothing:
  assumes "candidate_parts c = Some ps" and "\<forall>p \<in> set ps. is_object p"
  shows "candidate_content c = parts_text (filter has_text ps) \<and>
         ((\<forall>p \<in> set ps. \<not> has_text p) \<longrightarrow> candidate_content c = Inr []) \<and>
         ((\<forall>p \<in> set ps. has_text p \<longrightarrow> (\<exists>s. get_prop p ''text'' = Inr (JStr s))) \<longrightarrow>
            candidate_content c = Inr (text_parts ps)) \<and>
         (\<forall>e. candidate_content c = Inl e \<longrightarrow>
            (\<exists>p \<in> set ps. \<exists>v. has_text p \<and> get_prop p ''text'' = Inr v \<and> to_string v = Inl e))"
proof (intro conjI allI impI)
  from assms(1) have cc: "candidate_content c = parts_text ps"
    by (auto simp: candidate_content_def candidate_parts_def split: sum.splits jsval.splits)
  with parts_text_filter [OF assms(2)]
  show 1: "candidate_content c = parts_text (filter has_text ps)" by simp
  {
    assume "\<forall>p \<in> set ps. \<not> has_text p"
    then have "filter has_text ps = []" by (simp add: filter_empty_conv)
    with 1 show "candidate_content c = Inr []"
      by (simp add: parts_text_def js_join_def)
  next
    assume a: "\<forall>p \<in> set ps. has_text p \<longrightarrow> (\<exists>s. get_prop p ''text'' = Inr (JStr s))"
    have "text_typed p" if "p \<in> set ps" for p
    proof (cases "has_text p")
      case True
      with a that show ?thesis by (auto simp: text_typed_def)
    next
      case False
      then show ?thesis by (simp add: has_text_def text_typed_def)
    qed
    with cc parts_text_typed [of ps] show "candidate_content c = Inr (text_parts ps)"
      by simp
  next
    fix e
    let ?g = "\<lambda>p. case p of JObj kvs \<Rightarrow> field kvs ''text'' | _ \<Rightarrow> JUndefined"
    assume "candidate_content c = Inl e"
    with cc parts_text_objects [OF assms(2)] have "join_strings (map ?g ps) = Inl e"
      by (simp add: js_join_def split: sum.splits)
    from join_strings_failure [OF this] obtain p where
      p: "p \<in> set ps" "?g p \<noteq> JUndefined" "to_string (?g p) = Inl e" by auto
    from p(1) assms(2) have gp: "get_prop p ''text'' = Inr (?g p)" by (simp add: object_text)
    with p(2) have "has_text p" by (simp add: has_text_def)
    with p(1,3) gp
    show "\<exists>p \<in> set ps. \<exists>v. has_text p \<and> get_prop p ''text'' = Inr v \<and> to_string v = Inl e"
      by blast
  }
qed

text \<open>
  The sample candidate, whose second part has no \<^verbatim>\<open>text\<close>, and a candidate whose one
  part has a \<^verbatim>\<open>text\<close> that cannot be made a string.
\<close>

theorem textless_parts_add_nothing_witness:
  "candidate_parts sample_candidate = Some sample_parts \<and>
   list_all is_object sample_parts \<and>
   filter has_text sample_parts = [JObj [(''text'', JStr ''Hi '')], JObj [(''text'', JStr ''there'')]] \<and>
   candidate_content sample_candidate = Inr ''Hi there'' \<and>
   parts_text [JObj [(''text'', JStr ''Hi '')], JObj [(''text'', JStr ''there'')]] = Inr ''Hi there'' \<and>
   text_parts sample_parts = ''Hi there'' \<and>
   candidate_content
     (JObj [(''content'',
             JObj [(''parts'', JArr [JObj [(''text'', JObj [(''toString'', JNum 1)])]])])]) =
     Inl TypeError \<and>
   to_string (JObj [(''toString'', JNum 1)]) = Inl TypeError"
proof -
  have p: "candidate_parts sample_candidate = Some sample_parts"
    by (simp add: candidate_parts_def sample_candidate_def)
  have o: "\<forall>p \<in> set sample_parts. is_object p"
    by (simp add: sample_parts_def)
  have f: "filter has_text sample_parts =
      [JObj [(''text'', JStr ''Hi '')], JObj [(''text'', JStr ''there'')]]"
    by (simp add: sample_parts_def has_text_def)
  have t: "\<forall>p \<in> set sample_parts. has_text p \<longrightarrow> (\<exists>s. get_prop p ''text'' = Inr (JStr s))"
    by (simp add: sample_parts_def has_text_def)
  have c: "text_parts sample_parts = ''Hi there''"
    by (simp add: text_parts_def text_of_part_def sample_parts_def)
  have b: "candidate_content
     (JObj [(''content'',
             JObj [(''parts'', JArr [JObj [(''text'', JObj [(''toString'', JNum 1)])]])])]) =
     Inl TypeError"
    by (simp add: candidate_content_def parts_text_def js_join_def)
  from textless_parts_add_nothing [OF p o] p o f t c b sample_content show ?thesis
    by (simp add: list_all_iff)
qed

subsection \<open>The model list\<close>

lemma js_replace_prefix:
  "prefix pat s \<Longrightarrow> js_replace pat rep s = rep @ drop (length pat) s"
  by (cases s) simp_all

lemma js_replace_none:
  "\<not> sublist pat s \<Longrightarrow> js_replace pat rep s = s"
proof (induction s)
  case Nil
  then show ?case by auto
next
  case (Cons c cs)
  then show ?case by (auto simp: sublist_Cons_right)
qed

lemma js_replace_first:
  assumes "sublist pat s"
  shows "\<exists>a b. s = a @ pat @ b \<and> js_replace pat rep s = a @ rep @ b \<and>
           (\<forall>a' b'. s = a' @ pat @ b' \<longrightarrow> length a \<le> length a')"
  using assms
proof (induction s)
  case Nil
  then have "pat = []" by simp
  then show ?case by simp
next
  case (Cons c cs)
  show ?case
  proof (cases "prefix pat (c # cs)")
    case True
    then obtain b where b: "c # cs = pat @ b" by (auto simp: prefix_def)
    then have "drop (length pat) (c # cs) = b" by (metis append_eq_conv_conj)
    with True b have "c # cs = [] @ pat @ b \<and> js_replace pat rep (c # cs) = [] @ rep @ b"
      by (simp del: js_replace.simps add: js_replace_prefix)
    then show ?thesis by (metis le0 list.size(3))
  next
    case False
    with Cons.prems have "sublist pat cs" by (simp add: sublist_Cons_right)
    from Cons.IH [OF this] obtain a b where
      ab: "cs = a @ pat @ b" "js_replace pat rep cs = a @ rep @ b"
      and least: "\<forall>a' b'. cs = a' @ pat @ b' \<longrightarrow> length a \<le> length a'" by blast
    have "length (c # a) \<le> length a'" if "c # cs = a' @ pat @ b'" for a' b'
    proof (cases a')
      case Nil
      with that False show ?thesis by (simp add: prefix_def)
    next
      case (Cons x xs)
      with that have "cs = xs @ pat @ b'" by simp
      with least Cons show ?thesis by auto
    qed
    with ab False have "c # cs = (c # a) @ pat @ b \<and>
        js_replace pat rep (c # cs) = (c # a) @ rep @ b \<and>
        (\<forall>a' b'. c # cs = a' @ pat @ b' \<longrightarrow> length (c # a) \<le> length a')"
      by simp
    then show ?thesis by blast
  qed
qed

lemma modelNames_names:
  assumes "get_prop g ''models'' = Inr (JArr ms)"
    and "map (\<lambda>m. get_prop m ''name'') ms = map (\<lambda>n. Inr (JStr n)) names"
  shows "modelNames g = Inr (map (js_replace ''models/'' []) names)"
proof -
  from assms(2) have "try_map model_name ms = Inr (map (js_replace ''models/'' []) names)"
  proof (induction ms arbitrary: names)
    case Nil
    then show ?case by simp
  next
    case (Cons m ms)
    then obtain n ns where "names = n # ns" by (cases names) auto
    with Cons show ?case by (simp add: model_name_def)
  qed
  with assms(1) show ?thesis by (simp add: modelNames_def)
qed

text \<open>
  Claim C3, as the code has it. When the provider answers the list request with a
  \<^verbatim>\<open>models\<close> array whose entries are named \<open>names\<close>, the route answers 200 with as
  many strings in the same order, each the identifier with its first occurrence of
  \<^verbatim>\<open>models/\<close> removed. For an identifier that begins with \<^verbatim>\<open>models/\<close>, as the
  provider's do, this removes exactly that leading segment, and an identifier that
  does not contain \<^verbatim>\<open>models/\<close> is unchanged; otherwise the segment removed is the
  leftmost one inside the identifier.
\<close>

theorem models_first_occurrence_removed:
  assumes "key \<noteq> []"
    and "tr (HttpGet (models_url key)) = HttpResponse st g" and "200 \<le> st" and "st < 300"
    and "get_prop g ''models'' = Inr (JArr ms)"
    and "map (\<lambda>m. get_prop m ''name'') ms = map (\<lambda>n. Inr (JStr n)) names"
  shows "fst (get_v1_models key tr w) =
           Response 200 (JArr (map (\<lambda>n. JStr (js_replace ''models/'' [] n)) names)) \<and>
         (\<forall>n. (prefix ''models/'' n \<longrightarrow>
                 js_replace ''models/'' [] n = drop (length ''models/'') n) \<and>
              (\<not> sublist ''models/'' n \<longrightarrow> js_replace ''models/'' [] n = n) \<and>
              (sublist ''models/'' n \<longrightarrow>
                 (\<exists>a b. n = a @ ''models/'' @ b \<and> js_replace ''models/'' [] n = a @ b \<and>
                    (\<forall>a' b'. n = a' @ ''models/'' @ b' \<longrightarrow> length a \<le> length a'))))"
proof
  from assms(1-4) have "getGeminiModels key tr w =
      (Inr g, w\<lparr>calls := calls w @ [HttpGet (models_url key)]\<rparr>)"
    by (simp add: getGeminiModels_def axios_def Let_def)
  with modelNames_names [OF assms(5,6)]
  show "fst (get_v1_models key tr w) =
      Response 200 (JArr (map (\<lambda>n. JStr (js_replace ''models/'' [] n)) names))"
    by (simp add: get_v1_models_def comp_def)
next
  show "\<forall>n. (prefix ''models/'' n \<longrightarrow>
                 js_replace ''models/'' [] n = drop (length ''models/'') n) \<and>
              (\<not> sublist ''models/'' n \<longrightarrow> js_replace ''models/'' [] n = n) \<and>
              (sublist ''models/'' n \<longrightarrow>
                 (\<exists>a b. n = a @ ''models/'' @ b \<and> js_replace ''models/'' [] n = a @ b \<and>
                    (\<forall>a' b'. n = a' @ ''models/'' @ b' \<longrightarrow> length a \<le> length a')))"
    using js_replace_prefix [of "''models/''" _ "[]"] js_replace_none [of "''models/''" _ "[]"]
      js_replace_first [of "''models/''" _ "[]"]
    by (intro allI conjI impI) simp_all
qed

theorem models_first_occurrence_removed_witness:
  "fst (get_v1_models ''K'' sample_transport start) =
     Response 200 (JArr [JStr ''gemini-pro'', JStr ''models/x'', JStr ''embedding''])"
proof -
  let ?ms = "[JObj [(''name'', JStr ''models/gemini-pro''), (''version'', JStr ''001'')],
              JObj [(''name'', JStr ''models/models/x'')],
              JObj [(''name'', JStr ''embedding'')]]"
  let ?names = "[''models/gemini-pro'', ''models/models/x'', ''embedding'']"
  have g: "get_prop sample_models ''models'' = Inr (JArr ?ms)"
    by (simp add: sample_models_def)
  have t: "sample_transport (HttpGet (models_url ''K'')) = HttpResponse 200 sample_models"
    by (simp add: sample_transport_def)
  have n: "map (\<lambda>m. get_prop m ''name'') ?ms = map (\<lambda>n. Inr (JStr n)) ?names"
    by simp
  from models_first_occurrence_removed
    [of "''K''" sample_transport 200 sample_models ?ms ?names start] g t n
  show ?thesis by simp
qed

text \<open>
  The claim as stated fails for an identifier that has \<^verbatim>\<open>models/\<close> further in: it has
  no leading \<^verbatim>\<open>models/\<close> segment to remove, and yet it is changed.
\<close>

theorem models_inner_segment_counterexample:
  "get_prop odd_models ''models'' =
     Inr (JArr [JObj [(''name'', JStr ''publishers/google/models/gemini-pro'')]]) \<and>
   fst (get_v1_models ''K'' odd_transport start) =
     Response 200 (JArr [JStr ''publishers/google/gemini-pro'']) \<and>
   strip_leading ''publishers/google/models/gemini-pro'' = ''publishers/google/models/gemini-pro'' \<and>
   fst (get_v1_models ''K'' odd_transport start) \<noteq>
     Response 200 (JArr (map (\<lambda>n. JStr (strip_leading n)) [''publishers/google/models/gemini-pro'']))"
  by (simp add: odd_models_def odd_transport_def get_v1_models_def getGeminiModels_def
      axios_def modelNames_def model_name_def strip_leading_def Let_def)

subsection \<open>Valid requests\<close>

lemma js_or_string:
  "absent_or_string v \<Longrightarrow>
   js_or v (JStr dflt) = (case v of JStr s \<Rightarrow> if s = [] then JStr dflt else JStr s | _ \<Rightarrow> JStr dflt)"
  by (cases v) (simp_all add: js_or_def)

lemma given_or_default_field:
  "absent_or_string (field kvs k) \<Longrightarrow>
   given_or_default (JObj kvs) k dflt = js_or (field kvs k) (JStr dflt)"
  by (cases "field kvs k") (auto simp: given_or_default_def field_def js_or_def split: option.splits)

lemma get_prop_field: "get_prop (JObj kvs) k = Inr (field kvs k)"
  by (simp add: field_def split: option.splits)

lemma absent_or_bytes_truthy:
  "absent_or_bytes v \<Longrightarrow> truthy v \<longleftrightarrow> v \<noteq> JUndefined \<and> v \<noteq> JStr []"
  by (cases v) auto

lemma request_contents_valid:
  assumes "valid_request d"
  shows "request_contents d =
     Inr (given_or_default d ''model'' ''gemini-1.5-flash'',
          [\<lparr>parts =
              \<lparr>text = Some (given_or_default d ''prompt'' ''No prompt provided''),
               inline_data = None\<rparr> #
              (case get_prop d ''inlineData'' of
                 Inr v \<Rightarrow>
                   if v = JUndefined \<or> v = JStr [] then []
                   else [\<lparr>text = None,
                          inline_data = Some \<lparr>mime_type = given_or_default d ''mimeType'' ''text/plain'',
                                              data = base64 (given_bytes v)\<rparr>\<rparr>]
               | Inl e \<Rightarrow> [])\<rparr>])"
proof -
  from assms obtain kvs where d: "d = JObj kvs" by (cases d) auto
  with assms have v: "absent_or_string (field kvs ''model'')"
    "absent_or_string (field kvs ''prompt'')" "absent_or_string (field kvs ''mimeType'')"
    "absent_or_bytes (field kvs ''inlineData'')" by simp_all
  show ?thesis
  proof (cases "truthy (field kvs ''inlineData'')")
    case True
    with absent_or_bytes_truthy [OF v(4)]
    have ne: "field kvs ''inlineData'' \<noteq> JUndefined" "field kvs ''inlineData'' \<noteq> JStr []"
      by simp_all
    from buffer_from_given_bytes [OF v(4) ne(1)] True ne v(1-3) show ?thesis
      unfolding d request_contents_def get_prop_field
      by (simp add: given_or_default_field Let_def)
  next
    case False
    with absent_or_bytes_truthy [OF v(4)]
    have "field kvs ''inlineData'' = JUndefined \<or> field kvs ''inlineData'' = JStr []"
      by simp
    with False v(1-3) show ?thesis
      unfolding d request_contents_def get_prop_field
      by (auto simp: given_or_default_field Let_def)
  qed
qed

text \<open>
  Claim C1, as the code has it. For every valid request, with the API key set,
  \<^verbatim>\<open>generateGeminiResponse\<close> hands the transport one request, for the given or default
  model, whose contents are one block. Its first part is the text part with the given
  or default prompt. It is the only part when \<^verbatim>\<open>inlineData\<close> is absent or the empty
  string; when \<^verbatim>\<open>inlineData\<close> is given and not the empty string there is exactly one
  more part, with the base64 encoding of the given bytes and the given or default mime
  type.
\<close>

theorem upstream_contents:
  assumes "valid_request d" and "key \<noteq> []"
  shows "\<exists>ps url.
         generate_url key (given_or_default d ''model'' ''gemini-1.5-flash'') = Inr url \<and>
         calls (snd (generateGeminiResponse key tr rnd now d w)) =
           calls w @ [HttpPost url [\<lparr>parts = ps\<rparr>]] \<and>
         (get_prop d ''inlineData'' = Inr JUndefined \<or> get_prop d ''inlineData'' = Inr (JStr []) \<longrightarrow>
            ps = [\<lparr>text = Some (given_or_default d ''prompt'' ''No prompt provided''),
                   inline_data = None\<rparr>]) \<and>
         (\<forall>v. get_prop d ''inlineData'' = Inr v \<and> v \<noteq> JUndefined \<and> v \<noteq> JStr [] \<longrightarrow>
            ps = [\<lparr>text = Some (given_or_default d ''prompt'' ''No prompt provided''),
                   inline_data = None\<rparr>,
                  \<lparr>text = None,
                   inline_data = Some \<lparr>mime_type = given_or_default d ''mimeType'' ''text/plain'',
                                       data = base64 (given_bytes v)\<rparr>\<rparr>])"
proof -
  have "\<exists>url. generate_url key (given_or_default d ''model'' ''gemini-1.5-flash'') = Inr url"
    by (simp add: given_or_default_def generate_url_def split: sum.splits jsval.splits)
  then obtain url where
    url: "generate_url key (given_or_default d ''model'' ''gemini-1.5-flash'') = Inr url" ..
  with assms(2) generateGeminiResponse_calls [of key tr rnd now d w] show ?thesis
    by (auto simp: request_contents_valid [OF assms(1)])
qed

theorem upstream_contents_witness:
  "valid_request (JObj [(''prompt'', JStr ''Hello''), (''inlineData'', JStr ''hi!'')]) \<and>
   valid_request (JObj [(''model'', JStr ''gemini-pro''), (''mimeType'', JStr ''image/png''),
                        (''inlineData'', JArr [JNum 255, JNum 0])]) \<and>
   valid_request (JObj []) \<and>
   calls (snd (generateGeminiResponse ''K'' sample_transport ''0.4fzyo82mvyr'' 1700000000123
       (JObj [(''prompt'', JStr ''Hello''), (''inlineData'', JStr ''hi!'')]) start)) =
     [HttpPost ''https://generativelanguage.googleapis.com/v1beta/models/gemini-1.5-flash:generateContent?key=K''
        [\<lparr>parts = [\<lparr>text = Some (JStr ''Hello''), inline_data = None\<rparr>,
                    \<lparr>text = None,
                     inline_data = Some \<lparr>mime_type = JStr ''text/plain'', data = ''aGkh''\<rparr>\<rparr>]\<rparr>]] \<and>
   calls (snd (generateGeminiResponse ''K'' sample_transport ''0.4fzyo82mvyr'' 1700000000123
       (JObj [(''model'', JStr ''gemini-pro''), (''mimeType'', JStr ''image/png''),
              (''inlineData'', JArr [JNum 255, JNum 0])]) start)) =
     [HttpPost ''https://generativelanguage.googleapis.com/v1beta/models/gemini-pro:generateContent?key=K''
        [\<lparr>parts = [\<lparr>text = Some (JStr ''No prompt provided''), inline_data = None\<rparr>,
                    \<lparr>text = None,
                     inline_data = Some \<lparr>mime_type = JStr ''image/png'', data = ''/wA=''\<rparr>\<rparr>]\<rparr>]] \<and>
   calls (snd (generateGeminiResponse ''K'' sample_transport ''0.4fzyo82mvyr'' 1700000000123
       (JObj []) start)) =
     [HttpPost ''https://generativelanguage.googleapis.com/v1beta/models/gemini-1.5-flash:generateContent?key=K''
        [\<lparr>parts = [\<lparr>text = Some (JStr ''No prompt provided''), inline_data = None\<rparr>]\<rparr>]]"
proof -
  let ?a = "JObj [(''prompt'', JStr ''Hello''), (''inlineData'', JStr ''hi!'')]"
  let ?b = "JObj [(''model'', JStr ''gemini-pro''), (''mimeType'', JStr ''image/png''),
                  (''inlineData'', JArr [JNum 255, JNum 0])]"
  have va: "valid_request ?a" and vb: "valid_request ?b" and vc: "valid_request (JObj [])"
    by (simp_all add: field_def)
  have k: "''K'' \<noteq> []" by simp
  have s: "calls start = []" by (simp add: start_def)
  have ba: "base64 (given_bytes (JStr ''hi!'')) = ''aGkh''"
    by (simp add: b64_digit_def b64_alphabet_def)
  have bb: "base64 (given_bytes (JArr [JNum 255, JNum 0])) = ''/wA=''"
    by (simp add: b64_digit_def b64_alphabet_def)
  from upstream_contents [OF va k, of sample_transport "''0.4fzyo82mvyr''" 1700000000123 start]
    upstream_contents [OF vb k, of sample_transport "''0.4fzyo82mvyr''" 1700000000123 start]
    upstream_contents [OF vc k, of sample_transport "''0.4fzyo82mvyr''" 1700000000123 start]
    va vb vc s ba bb
  show ?thesis
    by (simp add: given_or_default_def generate_url_def)
qed

text \<open>
  The claim as stated fails for a request whose \<^verbatim>\<open>inlineData\<close> is present and is the
  empty string: the contents sent have one part, not two.
\<close>

theorem empty_string_payload_counterexample:
  "valid_request (JObj [(''prompt'', JStr ''Hello''), (''inlineData'', JStr [])]) \<and>
   get_prop (JObj [(''prompt'', JStr ''Hello''), (''inlineData'', JStr [])]) ''inlineData'' =
     Inr (JStr []) \<and>
   calls (snd (generateGeminiResponse ''K'' sample_transport ''0.4fzyo82mvyr'' 1700000000123
       (JObj [(''prompt'', JStr ''Hello''), (''inlineData'', JStr [])]) start)) =
     [HttpPost ''https://generativelanguage.googleapis.com/v1beta/models/gemini-1.5-flash:generateContent?key=K''
        [\<lparr>parts = [\<lparr>text = Some (JStr ''Hello''), inline_data = None\<rparr>]\<rparr>]]"
  by (simp add: field_def generateGeminiResponse_calls request_contents_def js_or_def
      generate_url_def start_def)

subsection \<open>Falsy fields\<close>

lemma map_of_filter_key:
  "map_of (filter (\<lambda>kv. fst kv \<noteq> k) kvs) k' = (if k' = k then None else map_of kvs k')"
  by (induction kvs) auto

lemma get_prop_del_prop:
  "get_prop (del_prop k d) k' =
     (if k' = k \<and> is_object d then Inr JUndefined else get_prop d k')"
  by (cases d) (simp_all add: map_of_filter_key)

lemma field_filter:
  "field (filter (\<lambda>kv. fst kv \<noteq> k) kvs) k' = (if k' = k then JUndefined else field kvs k')"
  by (simp add: field_def map_of_filter_key)

lemma request_contents_del_falsy:
  assumes "get_prop d k = Inr v" and "\<not> truthy v"
  shows "request_contents (del_prop k d) = request_contents d"
proof (cases d)
  case (JObj kvs)
  with assms have f: "\<not> truthy (field kvs k)"
    by (auto simp: field_def split: option.splits)
  consider "k = ''model''" | "k = ''prompt''" | "k = ''mimeType''" | "k = ''inlineData''"
    | "k \<noteq> ''model''" "k \<noteq> ''prompt''" "k \<noteq> ''mimeType''" "k \<noteq> ''inlineData''"
    by blast
  then show ?thesis
  proof cases
    case 1
    with f show ?thesis
      unfolding JObj del_prop.simps request_contents_def get_prop_field field_filter
      by (simp add: js_or_def)
  next
    case 2
    with f show ?thesis
      unfolding JObj del_prop.simps request_contents_def get_prop_field field_filter
      by (simp add: js_or_def)
  next
    case 3
    with f show ?thesis
      unfolding JObj del_prop.simps request_contents_def get_prop_field field_filter
      by (simp add: js_or_def)
  next
    case 4
    with f show ?thesis
      unfolding JObj del_prop.simps request_contents_def get_prop_field field_filter
      by simp
  next
    case 5
    then show ?thesis
      unfolding JObj del_prop.simps request_contents_def get_prop_field field_filter
      by simp
  qed
qed simp_all

lemma request_contents_Inr:
  assumes "request_contents d = Inr (m, cs)"
  shows "\<exists>vm vp vt vi.
           get_prop d ''model'' = Inr vm \<and> get_prop d ''prompt'' = Inr vp \<and>
           get_prop d ''mimeType'' = Inr vt \<and> get_prop d ''inlineData'' = Inr vi \<and>
           m = js_or vm (JStr ''gemini-1.5-flash'') \<and>
           cs = [\<lparr>parts =
                   \<lparr>text = Some (js_or vp (JStr ''No prompt provided'')), inline_data = None\<rparr> #
                   (if truthy vi
                    then [\<lparr>text = None,
                           inline_data =
                             Some \<lparr>mime_type = js_or vt (JStr ''text/plain''),
                                   data = base64 (case buffer_from vi of Inr b \<Rightarrow> b | Inl e \<Rightarrow> [])\<rparr>\<rparr>]
                    else [])\<rparr>]"
  using assms unfolding request_contents_def
  by (auto simp: Let_def split: sum.splits if_splits)

text \<open>
  Claim C9, as the code has it. A field whose value is falsy (the empty string among
  them) is treated as an absent field: deleting it from the request changes neither
  the result of \<^verbatim>\<open>generateGeminiResponse\<close> nor its effects. So an empty \<^verbatim>\<open>model\<close>,
  \<^verbatim>\<open>prompt\<close> or \<^verbatim>\<open>mimeType\<close> gives way to the default, and an \<^verbatim>\<open>inlineData\<close> that is
  the empty string adds no second part. An \<^verbatim>\<open>inlineData\<close> that is the empty array is
  not falsy: it adds a second part, whose data is the empty string.
\<close>

theorem falsy_fields_as_absent:
  "(\<forall>k v. get_prop d k = Inr v \<and> \<not> truthy v \<longrightarrow>
      generateGeminiResponse key tr rnd now d w =
        generateGeminiResponse key tr rnd now (del_prop k d) w) \<and>
   (\<forall>m cs. request_contents d = Inr (m, cs) \<and> get_prop d ''model'' = Inr (JStr []) \<longrightarrow>
      m = JStr ''gemini-1.5-flash'') \<and>
   (\<forall>m cs. request_contents d = Inr (m, cs) \<and> get_prop d ''prompt'' = Inr (JStr []) \<longrightarrow>
      (\<exists>rest. cs = [\<lparr>parts = \<lparr>text = Some (JStr ''No prompt provided''), inline_data = None\<rparr>
                             # rest\<rparr>])) \<and>
   (\<forall>m cs p i. request_contents d = Inr (m, cs) \<and> get_prop d ''mimeType'' = Inr (JStr []) \<and>
      p \<in> set (concat (map parts cs)) \<and> inline_data p = Some i \<longrightarrow>
      mime_type i = JStr ''text/plain'') \<and>
   (\<forall>m cs. request_contents d = Inr (m, cs) \<and> get_prop d ''inlineData'' = Inr (JStr []) \<longrightarrow>
      (\<exists>p. cs = [\<lparr>parts = [p]\<rparr>] \<and> inline_data p = None)) \<and>
   (get_prop d ''inlineData'' = Inr (JArr []) \<longrightarrow>
      (\<exists>vm vp vt.
         get_prop d ''model'' = Inr vm \<and> get_prop d ''prompt'' = Inr vp \<and>
         get_prop d ''mimeType'' = Inr vt \<and>
         request_contents d =
           Inr (js_or vm (JStr ''gemini-1.5-flash''),
                [\<lparr>parts =
                    [\<lparr>text = Some (js_or vp (JStr ''No prompt provided'')), inline_data = None\<rparr>,
                     \<lparr>text = None,
                      inline_data = Some \<lparr>mime_type = js_or vt (JStr ''text/plain''),
                                          data = []\<rparr>\<rparr>]\<rparr>])))"
proof (intro conjI allI impI)
  fix k v
  assume a: "get_prop d k = Inr v \<and> \<not> truthy v"
  then have "get_prop d k = Inr v" and "\<not> truthy v" by simp_all
  then have "request_contents (del_prop k d) = request_contents d"
    by (rule request_contents_del_falsy)
  then show "generateGeminiResponse key tr rnd now d w =
      generateGeminiResponse key tr rnd now (del_prop k d) w"
    by (simp add: generateGeminiResponse_def)
next
  fix m cs
  assume a: "request_contents d = Inr (m, cs) \<and> get_prop d ''model'' = Inr (JStr [])"
  with request_contents_Inr [of d m cs] show "m = JStr ''gemini-1.5-flash''"
    by (auto simp: js_or_def)
next
  fix m cs
  assume a: "request_contents d = Inr (m, cs) \<and> get_prop d ''prompt'' = Inr (JStr [])"
  with request_contents_Inr [of d m cs]
  show "\<exists>rest. cs = [\<lparr>parts = \<lparr>text = Some (JStr ''No prompt provided''), inline_data = None\<rparr>
                             # rest\<rparr>]"
    by (auto simp: js_or_def)
next
  fix m cs p i
  assume a: "request_contents d = Inr (m, cs) \<and> get_prop d ''mimeType'' = Inr (JStr []) \<and>
      p \<in> set (concat (map parts cs)) \<and> inline_data p = Some i"
  then have rc: "request_contents d = Inr (m, cs)"
    and mt: "get_prop d ''mimeType'' = Inr (JStr [])"
    and p: "p \<in> set (concat (map parts cs))" and i: "inline_data p = Some i" by simp_all
  from request_contents_Inr [OF rc] mt obtain vp vi b where
    cs: "cs = [\<lparr>parts =
                 \<lparr>text = Some (js_or vp (JStr ''No prompt provided'')), inline_data = None\<rparr> #
                 (if truthy vi
                  then [\<lparr>text = None,
                         inline_data = Some \<lparr>mime_type = js_or (JStr []) (JStr ''text/plain''),
                                             data = b\<rparr>\<rparr>]
                  else [])\<rparr>]"
    by auto
  show "mime_type i = JStr ''text/plain''"
  proof (cases "truthy vi")
    case True
    with cs p i show ?thesis by (auto simp: js_or_def)
  next
    case False
    with cs p i show ?thesis by auto
  qed
next
  fix m cs
  assume a: "request_contents d = Inr (m, cs) \<and> get_prop d ''inlineData'' = Inr (JStr [])"
  with request_contents_Inr [of d m cs]
  show "\<exists>p. cs = [\<lparr>parts = [p]\<rparr>] \<and> inline_data p = None"
    by auto
next
  assume a: "get_prop d ''inlineData'' = Inr (JArr [])"
  then obtain kvs where d: "d = JObj kvs" by (cases d) auto
  with a have f: "field kvs ''inlineData'' = JArr []"
    by (auto simp: field_def split: option.splits)
  show "\<exists>vm vp vt.
         get_prop d ''model'' = Inr vm \<and> get_prop d ''prompt'' = Inr vp \<and>
         get_prop d ''mimeType'' = Inr vt \<and>
         request_contents d =
           Inr (js_or vm (JStr ''gemini-1.5-flash''),
                [\<lparr>parts =
                    [\<lparr>text = Some (js_or vp (JStr ''No prompt provided'')), inline_data = None\<rparr>,
                     \<lparr>text = None,
                      inline_data = Some \<lparr>mime_type = js_or vt (JStr ''text/plain''),
                                          data = []\<rparr>\<rparr>]\<rparr>])"
    unfolding d request_contents_def get_prop_field by (simp add: f Let_def)
qed

theorem falsy_fields_as_absent_witness:
  "generateGeminiResponse ''K'' sample_transport ''0.4fzyo82mvyr'' 1700000000123
     (JObj [(''model'', JNull), (''prompt'', JStr []), (''mimeType'', JBool False),
            (''inlineData'', JStr [])]) start =
   generateGeminiResponse ''K'' sample_transport ''0.4fzyo82mvyr'' 1700000000123
     (JObj [(''model'', JNull), (''mimeType'', JBool False), (''inlineData'', JStr [])]) start \<and>
   request_contents
     (JObj [(''model'', JNull), (''prompt'', JStr []), (''mimeType'', JBool False),
            (''inlineData'', JStr [])]) =
     Inr (JStr ''gemini-1.5-flash'',
          [\<lparr>parts = [\<lparr>text = Some (JStr ''No prompt provided''), inline_data = None\<rparr>]\<rparr>]) \<and>
   request_contents (JObj [(''mimeType'', JStr []), (''inlineData'', JArr [])]) =
     Inr (JStr ''gemini-1.5-flash'',
          [\<lparr>parts = [\<lparr>text = Some (JStr ''No prompt provided''), inline_data = None\<rparr>,
                     \<lparr>text = None,
                      inline_data = Some \<lparr>mime_type = JStr ''text/plain'', data = []\<rparr>\<rparr>]\<rparr>])"
proof -
  let ?d = "JObj [(''model'', JNull), (''prompt'', JStr []), (''mimeType'', JBool False),
                  (''inlineData'', JStr [])]"
  have p: "get_prop ?d ''prompt'' = Inr (JStr []) \<and> \<not> truthy (JStr [])" by simp
  have e: "del_prop ''prompt'' ?d =
      JObj [(''model'', JNull), (''mimeType'', JBool False), (''inlineData'', JStr [])]"
    by simp
  have a: "request_contents ?d =
     Inr (JStr ''gemini-1.5-flash'',
          [\<lparr>parts = [\<lparr>text = Some (JStr ''No prompt provided''), inline_data = None\<rparr>]\<rparr>])"
    by (simp add: request_contents_def js_or_def)
  have b: "request_contents (JObj [(''mimeType'', JStr []), (''inlineData'', JArr [])]) =
     Inr (JStr ''gemini-1.5-flash'',
          [\<lparr>parts = [\<lparr>text = Some (JStr ''No prompt provided''), inline_data = None\<rparr>,
                     \<lparr>text = None,
                      inline_data = Some \<lparr>mime_type = JStr ''text/plain'', data = []\<rparr>\<rparr>]\<rparr>])"
    by (simp add: request_contents_def js_or_def)
  from falsy_fields_as_absent
    [of ?d "''K''" sample_transport "''0.4fzyo82mvyr''" 1700000000123 start,
      THEN conjunct1, rule_format, OF p] e
  have "generateGeminiResponse ''K'' sample_transport ''0.4fzyo82mvyr'' 1700000000123 ?d start =
      generateGeminiResponse ''K'' sample_transport ''0.4fzyo82mvyr'' 1700000000123
        (JObj [(''model'', JNull), (''mimeType'', JBool False), (''inlineData'', JStr [])]) start"
    by simp
  with a b show ?thesis by simp
qed

text \<open>
  The claim as stated fails for the empty byte sequence written as an array: two parts
  are sent upstream.
\<close>

theorem empty_array_payload_counterexample:
  "get_prop (JObj [(''prompt'', JStr ''Hello''), (''inlineData'', JArr [])]) ''inlineData'' =
     Inr (JArr []) \<and>
   given_bytes (JArr []) = [] \<and>
   calls (snd (generateGeminiResponse ''K'' sample_transport ''0.4fzyo82mvyr'' 1700000000123
       (JObj [(''prompt'', JStr ''Hello''), (''inlineData'', JArr [])]) start)) =
     [HttpPost ''https://generativelanguage.googleapis.com/v1beta/models/gemini-1.5-flash:generateContent?key=K''
        [\<lparr>parts = [\<lparr>text = Some (JStr ''Hello''), inline_data = None\<rparr>,
                    \<lparr>text = None,
                     inline_data = Some \<lparr>mime_type = JStr ''text/plain'', data = []\<rparr>\<rparr>]\<rparr>]]"
  by (simp add: generateGeminiResponse_calls request_contents_def js_or_def
      generate_url_def start_def)

end
